theory Spec2Isabelle
  imports Main
begin

section \<open>Strings and characters\<close>

text \<open>
  A JavaScript string is modelled as a \<^typ>\<open>string\<close>: a list of code units, each below 256.
  The character classes of the regular expressions in the server code are predicates on
  one code unit; \<open>/[class]/.test(s)\<close> is \<^const>\<open>list_ex\<close> of the class over \<open>s\<close>.
\<close>

definition in_range :: "char \<Rightarrow> char \<Rightarrow> char \<Rightarrow> bool" where
  "in_range lo hi c = ((of_char lo :: nat) \<le> of_char c \<and> (of_char c :: nat) \<le> of_char hi)"

definition is_lower :: "char \<Rightarrow> bool" where
  "is_lower c = in_range CHR ''a'' CHR ''z'' c"

definition is_upper :: "char \<Rightarrow> bool" where
  "is_upper c = in_range CHR ''A'' CHR ''Z'' c"

definition is_digit :: "char \<Rightarrow> bool" where
  "is_digit c = in_range CHR ''0'' CHR ''9'' c"

section \<open>JavaScript values\<close>

text \<open>
  The values that travel through the handlers: JSON payload values, cells of database
  rows and \<open>Date\<close> objects. \<open>undefined\<close> is \<^const>\<open>None\<close> of \<^typ>\<open>'a option\<close>.
  Numbers are the integers (a fractional JSON number is outside the model).
\<close>

datatype jsval = JNull | JBool bool | JNum int | JStr string | JDate int
  | JArr "jsval list" | JObj "(string \<times> jsval) list"

text \<open>Truthiness, as \<open>if (x)\<close>, \<open>!x\<close>, \<open>x || y\<close> and \<open>x && y\<close> test it.\<close>

fun truthy :: "jsval option \<Rightarrow> bool" where
  "truthy None = False"
| "truthy (Some JNull) = False"
| "truthy (Some (JBool b)) = b"
| "truthy (Some (JNum n)) = (n \<noteq> 0)"
| "truthy (Some (JStr s)) = (s \<noteq> [])"
| "truthy (Some _) = True"

text \<open>
  \<open>===\<close>: primitives are compared by value; a \<open>Date\<close>, an array and an object are compared
  by identity, and the two sides of every comparison in the handlers come from different
  places (the request and the database), so they are never the same object.
\<close>

fun is_reference :: "jsval \<Rightarrow> bool" where
  "is_reference (JDate _) = True"
| "is_reference (JArr _) = True"
| "is_reference (JObj _) = True"
| "is_reference _ = False"

definition strict_eq :: "jsval option \<Rightarrow> jsval option \<Rightarrow> bool" where
  "strict_eq a b = (case (a, b) of
      (None, None) \<Rightarrow> True
    | (Some x, Some y) \<Rightarrow> x = y \<and> \<not> is_reference x
    | _ \<Rightarrow> False)"

text \<open>\<open>x || d\<close> on values.\<close>

definition or_else :: "jsval option \<Rightarrow> jsval \<Rightarrow> jsval" where
  "or_else x d = (case x of None \<Rightarrow> d | Some v \<Rightarrow> if truthy x then v else d)"

text \<open>\<open>s.split(c)\<close> for a one-character separator.\<close>

fun split_on :: "char \<Rightarrow> string \<Rightarrow> string list" where
  "split_on c [] = [[]]"
| "split_on c (x # xs) =
     (if x = c then [] # split_on c xs
      else (case split_on c xs of [] \<Rightarrow> [[x]] | w # ws \<Rightarrow> (x # w) # ws))"

text \<open>\<open>xs[i]\<close> on an array: \<open>undefined\<close> out of range.\<close>

definition at_index :: "'a list \<Rightarrow> nat \<Rightarrow> 'a option" where
  "at_index xs i = (if i < length xs then Some (xs ! i) else None)"

text \<open>An object literal: a field whose value is \<open>undefined\<close> is absent from the JSON sent.\<close>

definition obj :: "(string \<times> jsval option) list \<Rightarrow> (string \<rightharpoonup> jsval)" where
  "obj kvs k = (case map_of kvs k of Some (Some v) \<Rightarrow> Some v | _ \<Rightarrow> None)"

definition jobj :: "(string \<times> jsval option) list \<Rightarrow> jsval" where
  "jobj kvs = JObj (List.map_filter (\<lambda>(k, v). map_option (Pair k) v) kvs)"

text \<open>The property \<open>v.k\<close> of an object value.\<close>

fun field :: "jsval \<Rightarrow> string \<Rightarrow> jsval option" where
  "field (JObj kvs) k = map_of kvs k"
| "field _ k = None"

section \<open>Database, environment, requests and responses\<close>

text \<open>
  A row of \<open>users\<close> or \<open>messages\<close> is the object the driver returns: a map from column
  names to values, SQL \<open>NULL\<close> being \<^const>\<open>JNull\<close>. A value bound to a column is stored and
  read back as it is. The rows of \<open>refresh_tokens\<close> are written by the server only, with
  a string, a \<open>Date\<close> and a boolean, and are a record.
\<close>

type_synonym row = "string \<rightharpoonup> jsval"

record refresh_token_row =
  token :: string
  user_id :: "jsval option"
  expires_at :: int
  is_revoked :: bool

record audit_entry =
  au_user_id :: "jsval option"
  au_action :: string
  au_resource_type :: string
  au_resource_id :: "jsval option"
  au_old_values :: "row option"
  au_new_values :: "row option"

record db =
  users :: "row list"
  messages :: "row list"
  message_tags :: "(jsval option \<times> jsval) list"
  refresh_tokens :: "refresh_token_row list"
  audit_logs :: "audit_entry list"
  console :: "string list"

text \<open>The SQL statements of the modelled handlers, by the place that issues them.\<close>

datatype stmt =
    SelActiveUser | SelRefreshToken | SelRefreshUser
  | InsAuditLog
  | CountMessages | SelMessages | SelMessage | IncViewCount
  | SelSlug | InsMessage | InsMessageTag
  | SelMessageById | SelSlugOther | UpdMessage | DelMessageTags
  | CountUsers | SelUsers | SelUserById | SelUsername | UpdUser

datatype jwt_error = TokenExpiredError | JsonWebTokenError | NotBeforeError

datatype secret = AccessSecret | RefreshSecret

text \<open>
  What a request cannot decide by itself: which statements the database rejects (the
  \<open>await\<close> throws, each time the statement is issued in this request), the clock, the
  result of \<open>jwt.verify\<close> on a string (the decoded \<open>userId\<close>, or the error thrown) and of
  \<open>jwt.sign\<close> (\<^const>\<open>None\<close> when it throws), the id the database gives a new message, and
  the verdict of the route validator \<open>validateUUID('id')\<close> on the \<open>id\<close> parameter.
\<close>

record env =
  fails :: "stmt \<Rightarrow> bool"
  now :: int
  jwt_verify :: "secret \<Rightarrow> string \<Rightarrow> jwt_error + jsval option"
  jwt_sign :: "secret \<Rightarrow> jsval option \<Rightarrow> string option"
  new_id :: jsval
  param_is_uuid :: "string \<Rightarrow> bool"

record request =
  req_authorization :: "string option"
  req_params :: "string \<rightharpoonup> string"
  req_query :: "string \<rightharpoonup> string"
  req_body :: "string \<rightharpoonup> jsval"
  req_user :: "row option"

record response =
  res_status :: nat
  res_success :: bool
  res_message :: "string option"
  res_data :: "string \<rightharpoonup> jsval"

definition reply :: "nat \<Rightarrow> bool \<Rightarrow> string \<Rightarrow> response" where
  "reply code ok msg =
     \<lparr> res_status = code, res_success = ok, res_message = Some msg, res_data = Map.empty \<rparr>"

text \<open>
  \<open>column = ${value}\<close> and \<open>column != ${value}\<close> in a \<open>WHERE\<close> clause: never true of
  \<open>NULL\<close> or of a missing value.
\<close>

definition sql_eq :: "jsval option \<Rightarrow> jsval option \<Rightarrow> bool" where
  "sql_eq a b = (a \<noteq> None \<and> a \<noteq> Some JNull \<and> a = b)"

definition sql_neq :: "jsval option \<Rightarrow> jsval option \<Rightarrow> bool" where
  "sql_neq a b = (a \<noteq> None \<and> a \<noteq> Some JNull \<and> b \<noteq> None \<and> b \<noteq> Some JNull \<and> a \<noteq> b)"

text \<open>\<open>jwt.verify(token, secret)\<close>: a token that is not a string is refused.\<close>

definition verify_token :: "env \<Rightarrow> secret \<Rightarrow> jsval option \<Rightarrow> jwt_error + jsval option" where
  "verify_token e k tok =
     (case tok of Some (JStr s) \<Rightarrow> jwt_verify e k s | _ \<Rightarrow> Inl JsonWebTokenError)"

text \<open>The property \<open>req.user?.x\<close>.\<close>

definition user_field :: "row option \<Rightarrow> string \<Rightarrow> jsval option" where
  "user_field u k = (case u of None \<Rightarrow> None | Some r \<Rightarrow> r k)"

section \<open>Authorization middleware (middleware/auth.js)\<close>

text \<open>
  A middleware either answers the request (\<^const>\<open>Inl\<close>) or calls \<open>next()\<close> with the
  request, possibly changed (\<^const>\<open>Inr\<close>).
\<close>

definition bearer_token :: "request \<Rightarrow> string option" where
  "bearer_token req =
     (case req_authorization req of
        None \<Rightarrow> None
      | Some authHeader \<Rightarrow>
          if authHeader = [] then Some []
          else at_index (split_on (CHR '' '') authHeader) 1)"

definition select_active_user :: "db \<Rightarrow> jsval option \<Rightarrow> string list \<Rightarrow> row option" where
  "select_active_user d uid cols =
     map_option (\<lambda>r. r |` set cols)
       (find (\<lambda>r. sql_eq (r ''id'') uid \<and> r ''status'' = Some (JStr ''active'')) (users d))"

definition auth_columns :: "string list" where
  "auth_columns = [''id'', ''email'', ''username'', ''first_name'', ''last_name'', ''role'',
     ''status'', ''avatar_url'']"

definition authenticateToken :: "env \<Rightarrow> db \<Rightarrow> request \<Rightarrow> response + request" where
  "authenticateToken e d req =
     (case bearer_token req of
        None \<Rightarrow> Inl (reply 401 False ''Access token required'')
      | Some tok \<Rightarrow>
          if tok = [] then Inl (reply 401 False ''Access token required'')
          else (case jwt_verify e AccessSecret tok of
              Inl err \<Rightarrow>
                if err = TokenExpiredError then Inl (reply 401 False ''Token expired'')
                else Inl (reply 403 False ''Invalid token'')
            | Inr userId \<Rightarrow>
                if fails e SelActiveUser then Inl (reply 403 False ''Invalid token'')
                else (case select_active_user d userId auth_columns of
                    None \<Rightarrow> Inl (reply 401 False ''Invalid token or user not found'')
                  | Some u \<Rightarrow> Inr (req\<lparr>req_user := Some u\<rparr>))))"

definition requireRole :: "string list \<Rightarrow> request \<Rightarrow> response + request" where
  "requireRole roles req =
     (case req_user req of
        None \<Rightarrow> Inl (reply 401 False ''Authentication required'')
      | Some u \<Rightarrow>
          if \<not> list_ex (\<lambda>r. strict_eq (Some (JStr r)) (u ''role'')) roles
          then Inl (reply 403 False ''Insufficient permissions'')
          else Inr req)"

definition requireAdmin :: "request \<Rightarrow> response + request" where
  "requireAdmin = requireRole [''admin'']"

definition requireModerator :: "request \<Rightarrow> response + request" where
  "requireModerator = requireRole [''admin'', ''moderator'']"

definition optionalAuth :: "env \<Rightarrow> db \<Rightarrow> request \<Rightarrow> request" where
  "optionalAuth e d req =
     (case bearer_token req of
        None \<Rightarrow> req
      | Some tok \<Rightarrow>
          if tok = [] then req
          else (case jwt_verify e AccessSecret tok of
              Inl err \<Rightarrow> req
            | Inr userId \<Rightarrow>
                if fails e SelActiveUser then req
                else (case select_active_user d userId auth_columns of
                    None \<Rightarrow> req
                  | Some u \<Rightarrow> req\<lparr>req_user := Some u\<rparr>)))"

section \<open>Audit trail (utils/auditLogger.js)\<close>

text \<open>
  \<open>createAuditLog\<close>: the \<open>INSERT\<close> is inside \<open>try\<close>; when it throws, the \<open>catch\<close> writes to the
  console and the function returns normally. The result says whether the function threw
  (\<^const>\<open>Inl\<close>) or returned (\<^const>\<open>Inr\<close>), as any awaited call does.
\<close>

definition insert_audit_log :: "env \<Rightarrow> audit_entry \<Rightarrow> db \<Rightarrow> string + db" where
  "insert_audit_log e a d =
     (if fails e InsAuditLog then Inl ''audit_logs insert failed''
      else Inr (d\<lparr>audit_logs := audit_logs d @ [a]\<rparr>))"

definition createAuditLog ::
  "env \<Rightarrow> jsval option \<Rightarrow> string \<Rightarrow> string \<Rightarrow> jsval option \<Rightarrow> row option \<Rightarrow> row option
     \<Rightarrow> db \<Rightarrow> string + db" where
  "createAuditLog e userId action resourceType resourceId oldValues newValues d =
     (case insert_audit_log e
        \<lparr> au_user_id = userId, au_action = action, au_resource_type = resourceType,
          au_resource_id = resourceId, au_old_values = oldValues, au_new_values = newValues \<rparr> d of
        Inl error \<Rightarrow> Inr (d\<lparr>console := console d @ [''Failed to create audit log:'' @ error]\<rparr>)
      | Inr d' \<Rightarrow> Inr d')"

section \<open>Credential and token service (controllers/authController.js)\<close>

text \<open>
  \<open>validatePasswordStrength\<close>. The class of special characters is
  \<open>[!@#$%^&*(),.?":{}|<>]\<close>.
\<close>

definition special_chars :: string where
  "special_chars = ''!@#$%^&*(),.?'' @ [CHR 0x22] @ '':{}|<>''"

definition is_special :: "char \<Rightarrow> bool" where
  "is_special c = (c \<in> set special_chars)"

record feedback =
  fb_minLength :: bool
  fb_hasLowerCase :: bool
  fb_hasUpperCase :: bool
  fb_hasNumbers :: bool
  fb_hasSpecialChar :: bool

record strength =
  isValid :: bool
  score :: nat
  feedback :: feedback

definition validatePasswordStrength :: "string \<Rightarrow> strength" where
  "validatePasswordStrength password =
     (let minLength = 8;
          hasLowerCase = list_ex is_lower password;
          hasUpperCase = list_ex is_upper password;
          hasNumbers = list_ex is_digit password;
          hasSpecialChar = list_ex is_special password;
          valid = (length password \<ge> minLength \<and> hasLowerCase \<and> hasUpperCase \<and> hasNumbers)
      in \<lparr> isValid = valid,
           score = length (filter id [hasLowerCase, hasUpperCase, hasNumbers, hasSpecialChar]),
           feedback = \<lparr> fb_minLength = (length password \<ge> minLength),
                        fb_hasLowerCase = hasLowerCase,
                        fb_hasUpperCase = hasUpperCase,
                        fb_hasNumbers = hasNumbers,
                        fb_hasSpecialChar = hasSpecialChar \<rparr> \<rparr>)"

text \<open>
  \<open>refreshToken\<close> (\<open>POST /api/auth/refresh\<close>). Everything after the first check runs inside
  one \<open>try\<close>, whose \<open>catch\<close> answers 401 \<open>Invalid refresh token\<close> for every error, whatever
  its name.
\<close>

definition select_refresh_token :: "db \<Rightarrow> jsval option \<Rightarrow> refresh_token_row option" where
  "select_refresh_token d tok = find (\<lambda>t. sql_eq (Some (JStr (token t))) tok) (refresh_tokens d)"

definition refresh_columns :: "string list" where
  "refresh_columns = [''id'', ''email'', ''first_name'', ''last_name'', ''username'', ''role'',
     ''status'']"

definition refreshToken :: "env \<Rightarrow> request \<Rightarrow> db \<Rightarrow> response \<times> db" where
  "refreshToken e req d =
     (let refreshToken = req_body req ''refreshToken'' in
      if \<not> truthy refreshToken then (reply 401 False ''Refresh token required'', d)
      else (case verify_token e RefreshSecret refreshToken of
          Inl err \<Rightarrow> (reply 401 False ''Invalid refresh token'', d)
        | Inr userId \<Rightarrow>
            if fails e SelRefreshToken then (reply 401 False ''Invalid refresh token'', d)
            else (let tokenRecord = select_refresh_token d refreshToken in
              if (case tokenRecord of None \<Rightarrow> True
                  | Some t \<Rightarrow> is_revoked t \<or> now e > expires_at t)
              then (reply 401 False ''Invalid or expired refresh token'', d)
              else if fails e SelRefreshUser then (reply 401 False ''Invalid refresh token'', d)
              else (case select_active_user d userId refresh_columns of
                  None \<Rightarrow> (reply 401 False ''User not found or inactive'', d)
                | Some u \<Rightarrow>
                    (case jwt_sign e AccessSecret (u ''id'') of
                       None \<Rightarrow> (reply 401 False ''Invalid refresh token'', d)
                     | Some newAccessToken \<Rightarrow>
                         (\<lparr> res_status = 200, res_success = True, res_message = None,
                            res_data = obj
                              [(''accessToken'', Some (JStr newAccessToken)),
                               (''user'', Some (jobj
                                  [(''id'', u ''id''), (''email'', u ''email''),
                                   (''firstName'', u ''first_name''),
                                   (''lastName'', u ''last_name''),
                                   (''username'', u ''username''), (''role'', u ''role'')]))] \<rparr>,
                          d))))))"

section \<open>Request validation (middleware/validation.js)\<close>

definition ALLOWED_USER_UPDATE_FIELDS :: "string list" where
  "ALLOWED_USER_UPDATE_FIELDS =
     [''first_name'', ''last_name'', ''username'', ''bio'', ''avatar_url'', ''role'', ''status'']"

definition ALLOWED_MESSAGE_UPDATE_FIELDS :: "string list" where
  "ALLOWED_MESSAGE_UPDATE_FIELDS =
     [''title'', ''content'', ''excerpt'', ''category_id'', ''status'', ''is_featured'',
      ''is_pinned'']"

definition ALLOWED_SORT_FIELDS :: "string list" where
  "ALLOWED_SORT_FIELDS =
     [''created_at'', ''updated_at'', ''title'', ''view_count'', ''like_count'', ''published_at'']"

text \<open>The two whitelisting middlewares rebuild \<open>req.body\<close> from the allow-list.\<close>

definition whitelistUserFields :: "request \<Rightarrow> request" where
  "whitelistUserFields req =
     req\<lparr>req_body := req_body req |` set ALLOWED_USER_UPDATE_FIELDS\<rparr>"

definition whitelistMessageFields :: "request \<Rightarrow> request" where
  "whitelistMessageFields req =
     req\<lparr>req_body := req_body req |` (set ALLOWED_MESSAGE_UPDATE_FIELDS \<union> {''tags''})\<rparr>"

text \<open>
  The validators and sanitizers of the \<open>express-validator\<close> chains used by
  \<open>validatePagination\<close>, on a query parameter that is one string. \<open>isInt({min, max})\<close>
  accepts an optional sign followed by digits whose value lies in the range; \<open>trim\<close> strips
  white space at both ends; \<open>escape\<close> replaces the characters \<open>& " ' < > / \ `\<close> by HTML
  entities; \<open>optional()\<close> skips the chain of a parameter that is \<open>undefined\<close>.
\<close>

definition is_space :: "char \<Rightarrow> bool" where
  "is_space c = ((of_char c :: nat) \<in> {9, 10, 11, 12, 13, 32, 160})"

definition digit_value :: "char \<Rightarrow> int" where
  "digit_value c =
     (if is_digit c then int (of_char c) - 48
      else if in_range CHR ''a'' CHR ''f'' c then int (of_char c) - 87
      else int (of_char c) - 55)"

definition number_of_digits :: "int \<Rightarrow> string \<Rightarrow> int" where
  "number_of_digits radix ds = foldl (\<lambda>acc c. acc * radix + digit_value c) 0 ds"

definition unsigned_part :: "string \<Rightarrow> bool \<times> string" where
  "unsigned_part s =
     (case s of
        c # r \<Rightarrow> if c = CHR ''-'' then (True, r) else if c = CHR ''+'' then (False, r)
                 else (False, s)
      | [] \<Rightarrow> (False, s))"

definition isInt_range :: "int \<Rightarrow> int \<Rightarrow> string \<Rightarrow> bool" where
  "isInt_range lo hi s =
     (let (neg, ds) = unsigned_part s;
          v = (if neg then - number_of_digits 10 ds else number_of_digits 10 ds)
      in ds \<noteq> [] \<and> list_all is_digit ds \<and> lo \<le> v \<and> v \<le> hi)"

definition v_trim :: "string \<Rightarrow> string" where
  "v_trim s = rev (dropWhile is_space (rev (dropWhile is_space s)))"

definition escape_char :: "char \<Rightarrow> string" where
  "escape_char c =
     (if c = CHR ''&'' then ''&amp;''
      else if c = CHR 0x22 then ''&quot;''
      else if c = CHR 0x27 then ''&#x27;''
      else if c = CHR ''<'' then ''&lt;''
      else if c = CHR ''>'' then ''&gt;''
      else if c = CHR ''/'' then ''&#x2F;''
      else if c = CHR 0x5C then ''&#x5C;''
      else if c = CHR 0x60 then ''&#96;''
      else [c])"

definition v_escape :: "string \<Rightarrow> string" where
  "v_escape s = concat (map escape_char s)"

definition is_alnum :: "char \<Rightarrow> bool" where
  "is_alnum c = (is_lower c \<or> is_upper c \<or> is_digit c)"

text \<open>
  The chains of \<open>validatePagination\<close>, in their order: each gives its message when its
  validator refuses the (sanitized) value. The chains of \<open>search\<close>, \<open>category\<close> and \<open>author\<close>
  store the trimmed and escaped value back into the query.
\<close>

definition STATUS_VALUES :: "string list" where
  "STATUS_VALUES = [''active'', ''hidden'', ''flagged'', ''deleted'']"

definition pagination_errors :: "(string \<rightharpoonup> string) \<Rightarrow> string list" where
  "pagination_errors q =
     (case q ''page'' of None \<Rightarrow> []
        | Some v \<Rightarrow> if isInt_range 1 1000 v then [] else [''Page must be between 1 and 1000''])
     @ (case q ''limit'' of None \<Rightarrow> []
        | Some v \<Rightarrow> if isInt_range 1 100 v then [] else [''Limit must be between 1 and 100''])
     @ (case q ''sort'' of None \<Rightarrow> []
        | Some v \<Rightarrow>
            if v \<in> set ALLOWED_SORT_FIELDS then []
            else [''Sort field must be one of: created_at, updated_at, title, ''
                  @ ''view_count, like_count, published_at''])
     @ (case q ''order'' of None \<Rightarrow> []
        | Some v \<Rightarrow> if v \<in> set [''asc'', ''desc''] then [] else [''Order must be either asc or desc''])
     @ (case q ''search'' of None \<Rightarrow> []
        | Some v \<Rightarrow> if length (v_escape (v_trim v)) \<le> 100 then []
                    else [''Search query must not exceed 100 characters''])
     @ (case q ''category'' of None \<Rightarrow> []
        | Some v \<Rightarrow>
            if v_escape (v_trim v) \<noteq> []
               \<and> list_all (\<lambda>c. is_alnum c \<or> c = CHR ''-'' \<or> c = CHR ''_'') (v_escape (v_trim v))
            then [] else [''Category slug contains invalid characters''])
     @ (case q ''status'' of None \<Rightarrow> []
        | Some v \<Rightarrow> if v \<in> set STATUS_VALUES then [] else [''Invalid status value''])
     @ (case q ''author'' of None \<Rightarrow> []
        | Some v \<Rightarrow>
            if v_escape (v_trim v) \<noteq> []
               \<and> list_all (\<lambda>c. is_alnum c \<or> c = CHR ''_'') (v_escape (v_trim v))
            then [] else [''Author username contains invalid characters''])"

definition sanitize_query :: "(string \<rightharpoonup> string) \<Rightarrow> (string \<rightharpoonup> string)" where
  "sanitize_query q k =
     (if k \<in> {''search'', ''category'', ''author''}
      then map_option (\<lambda>v. v_escape (v_trim v)) (q k) else q k)"

text \<open>
  \<open>validatePagination\<close> ends with \<open>handleValidationErrors\<close>: any error answers 400 and the
  handler behind it does not run.
\<close>

definition validatePagination :: "request \<Rightarrow> response + request" where
  "validatePagination req =
     (if pagination_errors (req_query req) \<noteq> []
      then Inl (reply 400 False ''Validation failed'')
      else Inr (req\<lparr>req_query := sanitize_query (req_query req)\<rparr>))"

section \<open>Paging and sorting of the list handlers\<close>

text \<open>
  \<open>parseInt(x)\<close> with no radix, on a query parameter: \<^const>\<open>None\<close> is \<open>NaN\<close>.
  An absent parameter reads as the text \<open>undefined\<close>, which has no digits. The value is
  the mathematical integer the digits denote.
\<close>

definition is_hex :: "char \<Rightarrow> bool" where
  "is_hex c = (is_digit c \<or> in_range CHR ''a'' CHR ''f'' c \<or> in_range CHR ''A'' CHR ''F'' c)"

definition parseInt :: "string option \<Rightarrow> int option" where
  "parseInt x =
     (case x of
        None \<Rightarrow> None
      | Some s \<Rightarrow>
          (let (neg, t) = unsigned_part (dropWhile is_space s);
               hex = (take 2 t = ''0x'' \<or> take 2 t = ''0X'');
               ds = (if hex then takeWhile is_hex (drop 2 t) else takeWhile is_digit t);
               v = number_of_digits (if hex then 16 else 10) ds
           in if ds = [] then None else Some (if neg then - v else v)))"

text \<open>\<open>parseInt(x) || d\<close>: \<open>NaN\<close> and 0 are falsy.\<close>

definition int_or :: "int option \<Rightarrow> int \<Rightarrow> int" where
  "int_or x d = (case x of None \<Rightarrow> d | Some n \<Rightarrow> if n = 0 then d else n)"

text \<open>\<open>req.query.k || ''\<close>.\<close>

definition str_or_empty :: "string option \<Rightarrow> string" where
  "str_or_empty x = (case x of None \<Rightarrow> [] | Some s \<Rightarrow> s)"

fun show_nat :: "nat \<Rightarrow> string" where
  "show_nat n =
     (if n < 10 then [char_of (48 + n)] else show_nat (n div 10) @ [char_of (48 + n mod 10)])"

declare show_nat.simps [simp del]

text \<open>
  The statements a list handler sends: what table, the conditions and bound parameters
  of \<open>WHERE\<close>, and for the page query the \<open>ORDER BY\<close> column and direction and the values
  bound to \<open>LIMIT\<close> and \<open>OFFSET\<close>. The rows that come back are not modelled.
\<close>

record where_clause =
  whereConditions :: "string list"
  params :: "string list"

datatype executed =
    CountQuery string where_clause
  | PageQuery string where_clause string string int int

fun page_limit :: "executed \<Rightarrow> int option" where
  "page_limit (PageQuery t w col dir lim off) = Some lim"
| "page_limit (CountQuery t w) = None"

fun page_sort :: "executed \<Rightarrow> (string \<times> string) option" where
  "page_sort (PageQuery t w col dir lim off) = Some (col, dir)"
| "page_sort (CountQuery t w) = None"

definition placeholder :: "string list \<Rightarrow> string" where
  "placeholder ps = ''$'' @ show_nat (length ps + 1)"

definition list_reply :: "int \<Rightarrow> int \<Rightarrow> response" where
  "list_reply page limit =
     \<lparr> res_status = 200, res_success = True, res_message = None,
       res_data = [''pagination'' \<mapsto> JObj [(''page'', JNum page), (''limit'', JNum limit)]] \<rparr>"

subsection \<open>\<open>getUsers\<close> (controllers/userController.js)\<close>

text \<open>
  After its two queries the handler logs \<open>req.user.id\<close>: without a user on the request
  that throws, and the \<open>catch\<close> answers 500.
\<close>

definition buildSafeUserWhereClause :: "string \<Rightarrow> string \<Rightarrow> string \<Rightarrow> where_clause" where
  "buildSafeUserWhereClause search role status =
     (let w0 = \<lparr> whereConditions = [], params = [] \<rparr>;
          w1 = (if search \<noteq> [] then
                  \<lparr> whereConditions = whereConditions w0 @
                      [''(first_name ILIKE '' @ placeholder (params w0) @ '' OR last_name ILIKE ''
                       @ placeholder (params w0) @ '' OR email ILIKE '' @ placeholder (params w0)
                       @ '' OR username ILIKE '' @ placeholder (params w0) @ '')''],
                    params = params w0 @ [''%'' @ search @ ''%''] \<rparr> else w0);
          w2 = (if role \<noteq> [] then
                  \<lparr> whereConditions = whereConditions w1 @ [''role = '' @ placeholder (params w1)],
                    params = params w1 @ [role] \<rparr> else w1);
          w3 = (if status \<noteq> [] then
                  \<lparr> whereConditions = whereConditions w2 @ [''status = '' @ placeholder (params w2)],
                    params = params w2 @ [status] \<rparr> else w2)
      in w3)"

definition user_sort_fields :: "string list" where
  "user_sort_fields = [''created_at'', ''updated_at'', ''email'', ''username'', ''last_login'']"

definition getUsers :: "env \<Rightarrow> request \<Rightarrow> response \<times> executed list" where
  "getUsers e req =
     (let page = int_or (parseInt (req_query req ''page'')) 1;
          limit = min (int_or (parseInt (req_query req ''limit'')) 10) 100;
          offset = (page - 1) * limit;
          allowedSortFields = user_sort_fields;
          sortField = (case req_query req ''sort'' of
                    Some s \<Rightarrow> if s \<in> set allowedSortFields then s else ''created_at''
                  | None \<Rightarrow> ''created_at'');
          order = (if req_query req ''order'' = Some ''asc'' then ''asc'' else ''desc'');
          w = buildSafeUserWhereClause (str_or_empty (req_query req ''search''))
                (str_or_empty (req_query req ''role'')) (str_or_empty (req_query req ''status''))
      in if fails e CountUsers then (reply 500 False ''Internal server error'', [])
         else if fails e SelUsers
           then (reply 500 False ''Internal server error'', [CountQuery ''users'' w])
         else if req_user req = None
           then (reply 500 False ''Internal server error'',
                 [CountQuery ''users'' w, PageQuery ''users'' w sortField order limit offset])
         else (list_reply page limit,
               [CountQuery ''users'' w, PageQuery ''users'' w sortField order limit offset]))"

subsection \<open>\<open>getMessages\<close> (controllers/messageController.js)\<close>

definition buildSafeWhereClause ::
  "string \<Rightarrow> string \<Rightarrow> string \<Rightarrow> string \<Rightarrow> jsval option \<Rightarrow> where_clause" where
  "buildSafeWhereClause search category status author userRole =
     (let w0 = \<lparr> whereConditions = [''1=1''], params = [] \<rparr>;
          w1 = (if search \<noteq> [] then
                  \<lparr> whereConditions = whereConditions w0 @
                      [''(m.title ILIKE '' @ placeholder (params w0) @ '' OR m.content ILIKE ''
                       @ placeholder (params w0) @ '')''],
                    params = params w0 @ [''%'' @ search @ ''%''] \<rparr> else w0);
          w2 = (if category \<noteq> [] then
                  \<lparr> whereConditions = whereConditions w1 @ [''c.slug = '' @ placeholder (params w1)],
                    params = params w1 @ [category] \<rparr> else w1);
          w3 = (if status \<noteq> [] then
                  \<lparr> whereConditions = whereConditions w2 @ [''m.status = '' @ placeholder (params w2)],
                    params = params w2 @ [status] \<rparr>
                else if \<not> strict_eq userRole (Some (JStr ''admin''))
                        \<and> \<not> strict_eq userRole (Some (JStr ''moderator''))
                  then w2\<lparr>whereConditions := whereConditions w2 @ [''m.status = 'active'' @ [CHR 0x27]]\<rparr>
                else w2);
          w4 = (if author \<noteq> [] then
                  \<lparr> whereConditions = whereConditions w3 @ [''u.username = '' @ placeholder (params w3)],
                    params = params w3 @ [author] \<rparr> else w3)
      in w4)"

definition message_sort_fields :: "string list" where
  "message_sort_fields =
     [''created_at'', ''updated_at'', ''title'', ''view_count'', ''like_count'', ''published_at'']"

definition getMessages :: "env \<Rightarrow> request \<Rightarrow> response \<times> executed list" where
  "getMessages e req =
     (let page = int_or (parseInt (req_query req ''page'')) 1;
          limit = min (int_or (parseInt (req_query req ''limit'')) 10) 100;
          offset = (page - 1) * limit;
          allowedSortFields = message_sort_fields;
          sortField = (case req_query req ''sort'' of
                    Some s \<Rightarrow> if s \<in> set allowedSortFields then s else ''created_at''
                  | None \<Rightarrow> ''created_at'');
          order = (if req_query req ''order'' = Some ''asc'' then ''asc'' else ''desc'');
          w = buildSafeWhereClause (str_or_empty (req_query req ''search''))
                (str_or_empty (req_query req ''category'')) (str_or_empty (req_query req ''status''))
                (str_or_empty (req_query req ''author'')) (user_field (req_user req) ''role'')
      in if fails e CountMessages then (reply 500 False ''Internal server error'', [])
         else if fails e SelMessages
           then (reply 500 False ''Internal server error'', [CountQuery ''messages'' w])
         else (list_reply page limit,
               [CountQuery ''messages'' w, PageQuery ''messages'' w sortField order limit offset]))"

section \<open>Slugs (controllers/messageController.js)\<close>

text \<open>
  \<open>generateSlug\<close>: \<open>toLowerCase()\<close>, then the three \<open>replace\<close> calls, then \<open>trim('-')\<close>, which
  ignores its argument and strips white space. On code units below 256,
  \<open>toLowerCase\<close> moves \<open>A\<close>-\<open>Z\<close> and the Latin-1 capitals.
\<close>

definition to_lower :: "char \<Rightarrow> char" where
  "to_lower c =
     (if is_upper c \<or> ((of_char c :: nat) \<in> {192..222} \<and> (of_char c :: nat) \<noteq> 215)
      then char_of ((of_char c :: nat) + 32) else c)"

definition slug_char :: "char \<Rightarrow> bool" where
  "slug_char c = (is_lower c \<or> is_digit c \<or> c = CHR '' '' \<or> c = CHR ''-'')"

text \<open>\<open>s.replace(/p+/g, '-')\<close>: every maximal run of characters of the class becomes one hyphen.\<close>

fun collapse :: "(char \<Rightarrow> bool) \<Rightarrow> string \<Rightarrow> string" where
  "collapse p [] = []"
| "collapse p [c] = (if p c then ''-'' else [c])"
| "collapse p (c # d # cs) =
     (if p c then (if p d then collapse p (d # cs) else CHR ''-'' # collapse p (d # cs))
      else c # collapse p (d # cs))"

definition generateSlug :: "string \<Rightarrow> string" where
  "generateSlug title =
     v_trim (collapse (\<lambda>c. c = CHR ''-'') (collapse is_space (filter slug_char (map to_lower title))))"

text \<open>A title that is not a string has no \<open>toLowerCase\<close>: the call throws.\<close>

definition generateSlug_of :: "jsval option \<Rightarrow> string option" where
  "generateSlug_of title = (case title of Some (JStr s) \<Rightarrow> Some (generateSlug s) | _ \<Rightarrow> None)"

text \<open>
  The uniqueness loop of \<open>createMessage\<close> and \<open>updateMessage\<close>, over the rows the
  \<open>SELECT\<close> looks at:
  \<^verbatim>\<open>while (slugExists) { if (!existing) slugExists = false;
                       else { finalSlug = `${slug}-${counter}`; counter++; } }\<close>
\<close>

definition slug_taken :: "row list \<Rightarrow> string \<Rightarrow> bool" where
  "slug_taken rows s = list_ex (\<lambda>r. r ''slug'' = Some (JStr s)) rows"

definition suffixed :: "string \<Rightarrow> nat \<Rightarrow> string" where
  "suffixed slug counter = slug @ ''-'' @ show_nat counter"

text \<open>
  The loop ends because the table is finite: only finitely many counters give a slug
  that some row holds.
\<close>

lemma show_nat_bound: "n < 10 ^ length (show_nat n)"
proof (induction n rule: show_nat.induct)
  case (1 n)
  show ?case
  proof (cases "n < 10")
    case True
    then show ?thesis by (simp add: show_nat.simps [of n])
  next
    case False
    with 1 have "n div 10 < 10 ^ length (show_nat (n div 10))" by simp
    then have "n < 10 * 10 ^ length (show_nat (n div 10))" by linarith
    with False show ?thesis by (simp add: show_nat.simps [of n])
  qed
qed

definition slug_room :: "row list \<Rightarrow> nat" where
  "slug_room rows = sum_list (map (\<lambda>r. case r ''slug'' of Some (JStr s) \<Rightarrow> length s | _ \<Rightarrow> 0) rows)"

lemma slug_taken_length: "slug_taken rows s \<Longrightarrow> length s \<le> slug_room rows"
  by (induction rows) (auto simp: slug_taken_def slug_room_def)

lemma taken_counter_bound:
  assumes "slug_taken rows (suffixed slug k)"
  shows "k < 10 ^ slug_room rows"
proof -
  have "length (show_nat k) \<le> slug_room rows"
    using slug_taken_length [OF assms] by (simp add: suffixed_def)
  then have "(10::nat) ^ length (show_nat k) \<le> 10 ^ slug_room rows"
    by (simp add: power_increasing)
  with show_nat_bound [of k] show ?thesis by linarith
qed

lemma finite_taken_counters: "finite {k. c \<le> k \<and> slug_taken rows (suffixed slug k)}"
proof (rule finite_subset)
  show "{k. c \<le> k \<and> slug_taken rows (suffixed slug k)} \<subseteq> {..< 10 ^ slug_room rows}"
    using taken_counter_bound by auto
qed simp

definition slug_measure :: "row list \<times> string \<times> string \<times> nat \<Rightarrow> nat" where
  "slug_measure = (\<lambda>(rows, slug, finalSlug, counter).
     (if slug_taken rows finalSlug then 1 else 0)
     + 2 * card {k. counter \<le> k \<and> slug_taken rows (suffixed slug k)})"

lemma slug_measure_decreases:
  assumes "slug_taken rows finalSlug"
  shows "slug_measure (rows, slug, suffixed slug counter, Suc counter)
       < slug_measure (rows, slug, finalSlug, counter)"
proof (cases "slug_taken rows (suffixed slug counter)")
  case True
  have eq: "{k. counter \<le> k \<and> slug_taken rows (suffixed slug k)}
      = insert counter {k. Suc counter \<le> k \<and> slug_taken rows (suffixed slug k)}"
    using True by (auto simp: Suc_le_eq le_less)
  have "card {k. counter \<le> k \<and> slug_taken rows (suffixed slug k)}
      = Suc (card {k. Suc counter \<le> k \<and> slug_taken rows (suffixed slug k)})"
    unfolding eq by (rule card_insert_disjoint) (auto simp: finite_taken_counters)
  with True assms show ?thesis by (simp add: slug_measure_def)
next
  case False
  have "{k. Suc counter \<le> k \<and> slug_taken rows (suffixed slug k)}
      = {k. counter \<le> k \<and> slug_taken rows (suffixed slug k)}"
    using False by (auto simp: Suc_le_eq le_less)
  with False assms show ?thesis by (simp add: slug_measure_def)
qed

function unique_slug :: "row list \<Rightarrow> string \<Rightarrow> string \<Rightarrow> nat \<Rightarrow> string" where
  "unique_slug rows slug finalSlug counter =
     (if slug_taken rows finalSlug
      then unique_slug rows slug (suffixed slug counter) (Suc counter)
      else finalSlug)"
  by pat_completeness auto
termination
  by (relation "measure slug_measure") (auto simp: slug_measure_decreases)

declare unique_slug.simps [simp del]

section \<open>Message handlers (controllers/messageController.js)\<close>

text \<open>
  The test \<open>/^[0-9a-f]{8}-[0-9a-f]{4}-[0-9a-f]{4}-[0-9a-f]{4}-[0-9a-f]{12}$/i\<close>: five groups of
  hexadecimal digits of lengths 8, 4, 4, 4 and 12, separated by hyphens.
\<close>

definition isUUID :: "string \<Rightarrow> bool" where
  "isUUID s =
     (list_all (list_all is_hex) (split_on CHR ''-'' s)
      \<and> map length (split_on CHR ''-'' s) = [8, 4, 4, 4, 12])"

text \<open>
  The same test on an element of \<open>tags\<close>, which \<open>test\<close> first turns into text. The text
  of a one-element array is the text of its element; no other value that is not a string
  has a text of that shape.
\<close>

fun uuid_text :: "jsval \<Rightarrow> bool" where
  "uuid_text (JStr s) = isUUID s"
| "uuid_text (JArr [x]) = uuid_text x"
| "uuid_text _ = False"

definition server_error :: response where
  "server_error = reply 500 False ''Internal server error''"

text \<open>
  \<open>message.view_count + 1\<close> in the handler and \<open>view_count + 1\<close> in the \<open>UPDATE\<close>.
  \<open>view_count\<close> is an integer column: a row holds a number there, or \<open>NULL\<close>, which the
  database leaves \<open>NULL\<close> and JavaScript counts as 0. On a string \<open>+\<close> appends; a missing
  value gives \<open>NaN\<close>, which is sent as \<open>null\<close>. Other values cannot come out of the column and
  are left as they are.
\<close>

fun js_plus_one :: "jsval option \<Rightarrow> jsval option" where
  "js_plus_one (Some (JNum n)) = Some (JNum (n + 1))"
| "js_plus_one (Some JNull) = Some (JNum 1)"
| "js_plus_one (Some (JBool b)) = Some (JNum (if b then 2 else 1))"
| "js_plus_one (Some (JStr s)) = Some (JStr (s @ ''1''))"
| "js_plus_one None = Some JNull"
| "js_plus_one v = v"

fun sql_plus_one :: "jsval option \<Rightarrow> jsval option" where
  "sql_plus_one (Some (JNum n)) = Some (JNum (n + 1))"
| "sql_plus_one v = v"

definition set_column :: "string \<Rightarrow> jsval option \<Rightarrow> row \<Rightarrow> row" where
  "set_column k v r = r(k := v)"

text \<open>\<open>UPDATE t SET ... WHERE id = ${id}\<close>: the rows whose id matches are changed.\<close>

definition update_where_id :: "jsval option \<Rightarrow> (row \<Rightarrow> row) \<Rightarrow> row list \<Rightarrow> row list" where
  "update_where_id rid f rows = map (\<lambda>r. if sql_eq (r ''id'') rid then f r else r) rows"

definition select_by_id :: "row list \<Rightarrow> jsval option \<Rightarrow> row option" where
  "select_by_id rows rid = find (\<lambda>r. sql_eq (r ''id'') rid) rows"

text \<open>The fields of one message in a response. The joined category, author and tags are left out.\<close>

definition message_json :: "row \<Rightarrow> jsval option \<Rightarrow> jsval" where
  "message_json m viewCount = jobj
     [(''id'', m ''id''), (''title'', m ''title''), (''content'', m ''content''),
      (''excerpt'', m ''excerpt''), (''slug'', m ''slug''), (''status'', m ''status''),
      (''isFeatured'', m ''is_featured''), (''isPinned'', m ''is_pinned''),
      (''viewCount'', viewCount), (''likeCount'', m ''like_count''),
      (''commentCount'', m ''comment_count''), (''publishedAt'', m ''published_at''),
      (''createdAt'', m ''created_at''), (''updatedAt'', m ''updated_at'')]"

definition message_reply :: "nat \<Rightarrow> string option \<Rightarrow> jsval \<Rightarrow> response" where
  "message_reply code msg m =
     \<lparr> res_status = code, res_success = True, res_message = msg, res_data = [''message'' \<mapsto> m] \<rparr>"

subsection \<open>\<open>getMessageBySlug\<close>\<close>

text \<open>The \<open>SELECT\<close>: by id when the parameter has the shape of a UUID, by slug otherwise.\<close>

definition select_message :: "db \<Rightarrow> string \<Rightarrow> row option" where
  "select_message d slug =
     find (\<lambda>m. if isUUID slug then sql_eq (m ''id'') (Some (JStr slug))
               else sql_eq (m ''slug'') (Some (JStr slug))) (messages d)"

definition getMessageBySlug :: "env \<Rightarrow> request \<Rightarrow> db \<Rightarrow> response \<times> db" where
  "getMessageBySlug e req d =
     (case req_params req ''slug'' of
        None \<Rightarrow> (reply 400 False ''Invalid slug parameter'', d)
      | Some slug \<Rightarrow>
          if slug = [] then (reply 400 False ''Invalid slug parameter'', d)
          else if fails e SelMessage then (server_error, d)
          else (case select_message d slug of
              None \<Rightarrow> (reply 404 False ''Message not found'', d)
            | Some message \<Rightarrow>
                if \<not> strict_eq (message ''status'') (Some (JStr ''active''))
                   \<and> \<not> strict_eq (user_field (req_user req) ''role'') (Some (JStr ''admin''))
                   \<and> \<not> strict_eq (user_field (req_user req) ''role'') (Some (JStr ''moderator''))
                   \<and> \<not> strict_eq (user_field (req_user req) ''id'') (message ''author_id'')
                then (reply 404 False ''Message not found'', d)
                else if strict_eq (message ''status'') (Some (JStr ''active''))
                        \<and> fails e IncViewCount
                  then (server_error, d)
                else
                  (message_reply 200 None (message_json message (js_plus_one (message ''view_count''))),
                   if strict_eq (message ''status'') (Some (JStr ''active''))
                   then d\<lparr>messages := update_where_id (message ''id'')
                          (\<lambda>r. set_column ''view_count'' (sql_plus_one (r ''view_count'')) r)
                          (messages d)\<rparr>
                   else d)))"

subsection \<open>\<open>createMessage\<close>\<close>

text \<open>
  The loop over \<open>tags\<close>: an element that is not a UUID is skipped; the others are inserted,
  \<open>ON CONFLICT DO NOTHING\<close>. \<^const>\<open>Inl\<close> is a throwing \<open>INSERT\<close>, with the database as it was
  left.
\<close>

fun insert_tags :: "env \<Rightarrow> jsval option \<Rightarrow> jsval list \<Rightarrow> db \<Rightarrow> db + db" where
  "insert_tags e mid [] d = Inr d"
| "insert_tags e mid (tagId # tags) d =
     (if \<not> uuid_text tagId then insert_tags e mid tags d
      else if fails e InsMessageTag then Inl d
      else insert_tags e mid tags
             (if (mid, tagId) \<in> set (message_tags d) then d
              else d\<lparr>message_tags := message_tags d @ [(mid, tagId)]\<rparr>))"

text \<open>\<open>if (tags && Array.isArray(tags) && tags.length > 0)\<close>, then the loop.\<close>

definition add_tags :: "env \<Rightarrow> jsval option \<Rightarrow> jsval option \<Rightarrow> db \<Rightarrow> db + db" where
  "add_tags e mid tags d =
     (case tags of Some (JArr ts) \<Rightarrow> insert_tags e mid ts d | _ \<Rightarrow> Inr d)"

definition created_json :: "row \<Rightarrow> jsval" where
  "created_json m = message_json m (m ''view_count'')"

definition new_message_row ::
  "env \<Rightarrow> request \<Rightarrow> string \<Rightarrow> jsval \<Rightarrow> row" where
  "new_message_row e req finalSlug messageStatus = obj
     [(''id'', Some (new_id e)),
      (''title'', req_body req ''title''),
      (''content'', req_body req ''content''),
      (''excerpt'', Some (or_else (req_body req ''excerpt'') JNull)),
      (''slug'', Some (JStr finalSlug)),
      (''category_id'', Some (or_else (req_body req ''categoryId'') JNull)),
      (''author_id'', user_field (req_user req) ''id''),
      (''status'', Some messageStatus),
      (''is_featured'', Some (or_else (req_body req ''isFeatured'') (JBool False))),
      (''is_pinned'', Some (or_else (req_body req ''isPinned'') (JBool False))),
      (''published_at'', Some (if messageStatus = JStr ''active'' then JDate (now e) else JNull)),
      (''view_count'', Some (JNum 0)), (''like_count'', Some (JNum 0)),
      (''comment_count'', Some (JNum 0)),
      (''created_at'', Some (JDate (now e))), (''updated_at'', Some (JDate (now e)))]"

definition createMessage :: "env \<Rightarrow> request \<Rightarrow> db \<Rightarrow> response \<times> db" where
  "createMessage e req d =
     (case generateSlug_of (req_body req ''title'') of
        None \<Rightarrow> (server_error, d)
      | Some slug \<Rightarrow>
          if fails e SelSlug then (server_error, d)
          else (let finalSlug = unique_slug (messages d) slug slug 1 in
            case req_user req of
              None \<Rightarrow> (server_error, d)
            | Some u \<Rightarrow>
                (let messageStatus =
                       (if strict_eq (u ''role'') (Some (JStr ''user'')) then JStr ''active''
                        else or_else (req_body req ''status'') (JStr ''active''));
                     message = new_message_row e req finalSlug messageStatus
                 in if fails e InsMessage then (server_error, d)
                    else (let d1 = d\<lparr>messages := messages d @ [message]\<rparr> in
                      case add_tags e (message ''id'') (req_body req ''tags'') d1 of
                        Inl d2 \<Rightarrow> (server_error, d2)
                      | Inr d2 \<Rightarrow>
                          (case createAuditLog e (u ''id'') ''create'' ''message'' (message ''id'')
                                  None (Some message) d2 of
                             Inl error \<Rightarrow> (server_error, d2)
                           | Inr d3 \<Rightarrow>
                               (message_reply 201 (Some ''Message created successfully'')
                                  (created_json message), d3))))))"

subsection \<open>\<open>updateMessage\<close>\<close>

text \<open>
  The \<open>updates\<close> object is a list of column names and values, in the order the handler
  adds them; \<open>Object.keys(updates)\<close> are its names. The generated statement is
  \<open>UPDATE t SET k1 = $2, ..., updated_at = NOW() WHERE id = $1 RETURNING *\<close>.
\<close>

type_synonym updates = "(string \<times> jsval) list"

definition add_if :: "bool \<Rightarrow> string \<Rightarrow> jsval option \<Rightarrow> updates \<Rightarrow> updates" where
  "add_if c k v us = (case v of Some x \<Rightarrow> if c then us @ [(k, x)] else us | None \<Rightarrow> us)"

definition apply_updates :: "env \<Rightarrow> updates \<Rightarrow> row \<Rightarrow> row" where
  "apply_updates e us r =
     set_column ''updated_at'' (Some (JDate (now e)))
       (foldl (\<lambda>r (k, v). set_column k (Some v) r) r us)"

text \<open>
  The title block of \<open>updateMessage\<close>: a title other than the stored one gets a new slug,
  unique among the other messages. \<^const>\<open>None\<close> is a throw (a title that is not a string,
  or a failing \<open>SELECT\<close>).
\<close>

definition title_updates :: "env \<Rightarrow> db \<Rightarrow> jsval option \<Rightarrow> row \<Rightarrow> jsval option \<Rightarrow> updates option" where
  "title_updates e d rid existingMessage title =
     (case title of
        None \<Rightarrow> Some []
      | Some t \<Rightarrow>
          if ''title'' \<notin> set ALLOWED_MESSAGE_UPDATE_FIELDS then Some []
          else if strict_eq title (existingMessage ''title'') then Some [(''title'', t)]
          else (case generateSlug_of title of
              None \<Rightarrow> None
            | Some slug \<Rightarrow>
                if fails e SelSlugOther then None
                else Some [(''title'', t),
                           (''slug'', JStr (unique_slug
                              (filter (\<lambda>r. sql_neq (r ''id'') rid) (messages d)) slug slug 1))]))"

definition is_staff :: "row \<Rightarrow> bool" where
  "is_staff u = (strict_eq (u ''role'') (Some (JStr ''admin''))
                 \<or> strict_eq (u ''role'') (Some (JStr ''moderator'')))"

definition gated_message_updates :: "env \<Rightarrow> request \<Rightarrow> row \<Rightarrow> updates \<Rightarrow> updates" where
  "gated_message_updates e req existingMessage us =
     (let us1 = add_if (''is_featured'' \<in> set ALLOWED_MESSAGE_UPDATE_FIELDS) ''is_featured''
                  (req_body req ''isFeatured'') us;
          us2 = add_if (''is_pinned'' \<in> set ALLOWED_MESSAGE_UPDATE_FIELDS) ''is_pinned''
                  (req_body req ''isPinned'') us1;
          us3 = add_if (''status'' \<in> set ALLOWED_MESSAGE_UPDATE_FIELDS) ''status''
                  (req_body req ''status'') us2;
          us4 = (if req_body req ''status'' \<noteq> None
                    \<and> ''status'' \<in> set ALLOWED_MESSAGE_UPDATE_FIELDS
                    \<and> strict_eq (req_body req ''status'') (Some (JStr ''active''))
                    \<and> \<not> strict_eq (existingMessage ''status'') (Some (JStr ''active''))
                 then us3 @ [(''published_at'', JDate (now e))] else us3)
      in us4)"

definition message_updates :: "env \<Rightarrow> db \<Rightarrow> request \<Rightarrow> row \<Rightarrow> row \<Rightarrow> updates option" where
  "message_updates e d req u existingMessage =
     (case title_updates e d (map_option JStr (req_params req ''id'')) existingMessage
             (req_body req ''title'') of
        None \<Rightarrow> None
      | Some us0 \<Rightarrow>
          (let us1 = add_if (''content'' \<in> set ALLOWED_MESSAGE_UPDATE_FIELDS) ''content''
                       (req_body req ''content'') us0;
               us2 = add_if (''excerpt'' \<in> set ALLOWED_MESSAGE_UPDATE_FIELDS) ''excerpt''
                       (req_body req ''excerpt'') us1;
               us3 = add_if (''category_id'' \<in> set ALLOWED_MESSAGE_UPDATE_FIELDS) ''category_id''
                       (req_body req ''categoryId'') us2
           in Some (if is_staff u then gated_message_updates e req existingMessage us3 else us3)))"

text \<open>
  The tags of an update: when \<open>tags\<close> is an array, the message's tags are deleted and the
  valid elements inserted.
\<close>

definition replace_tags :: "env \<Rightarrow> jsval option \<Rightarrow> jsval option \<Rightarrow> db \<Rightarrow> db + db" where
  "replace_tags e mid tags d =
     (case tags of
        Some (JArr ts) \<Rightarrow>
          if fails e DelMessageTags then Inl d
          else insert_tags e mid ts
                 (d\<lparr>message_tags := filter (\<lambda>(m, t). \<not> sql_eq m mid) (message_tags d)\<rparr>)
      | _ \<Rightarrow> Inr d)"

definition updateMessage :: "env \<Rightarrow> request \<Rightarrow> db \<Rightarrow> response \<times> db" where
  "updateMessage e req d =
     (let rid = map_option JStr (req_params req ''id'') in
      if fails e SelMessageById then (server_error, d)
      else (case select_by_id (messages d) rid of
          None \<Rightarrow> (reply 404 False ''Message not found'', d)
        | Some existingMessage \<Rightarrow>
            (case req_user req of
               None \<Rightarrow> (server_error, d)
             | Some u \<Rightarrow>
                 if \<not> (is_staff u \<or> strict_eq (u ''id'') (existingMessage ''author_id''))
                 then (reply 403 False ''Insufficient permissions'', d)
                 else (case message_updates e d req u existingMessage of
                     None \<Rightarrow> (server_error, d)
                   | Some us \<Rightarrow>
                       if us = [] \<and> \<not> truthy (req_body req ''tags'')
                       then (reply 400 False ''No valid fields to update'', d)
                       else if us \<noteq> [] \<and> fails e UpdMessage then (server_error, d)
                       else (let d1 = (if us \<noteq> []
                                       then d\<lparr>messages := update_where_id rid (apply_updates e us)
                                                             (messages d)\<rparr>
                                       else d);
                                 updatedMessage = (if us \<noteq> [] then select_by_id (messages d1) rid
                                                   else Some existingMessage)
                         in case replace_tags e rid (req_body req ''tags'') d1 of
                              Inl d2 \<Rightarrow> (server_error, d2)
                            | Inr d2 \<Rightarrow>
                                (case createAuditLog e (u ''id'') ''update'' ''message'' rid
                                        (Some existingMessage) updatedMessage d2 of
                                   Inl error \<Rightarrow> (server_error, d2)
                                 | Inr d3 \<Rightarrow>
                                     (case updatedMessage of
                                        None \<Rightarrow> (server_error, d3)
                                      | Some m \<Rightarrow>
                                          (message_reply 200 (Some ''Message updated successfully'')
                                             (created_json m), d3))))))))"

section \<open>User handlers (controllers/userController.js)\<close>

definition user_json :: "row \<Rightarrow> jsval" where
  "user_json u = jobj
     [(''id'', u ''id''), (''email'', u ''email''), (''firstName'', u ''first_name''),
      (''lastName'', u ''last_name''), (''username'', u ''username''),
      (''avatarUrl'', u ''avatar_url''), (''bio'', u ''bio''), (''role'', u ''role''),
      (''status'', u ''status''), (''emailVerified'', u ''email_verified''),
      (''lastLogin'', u ''last_login''), (''loginCount'', u ''login_count''),
      (''createdAt'', u ''created_at''), (''updatedAt'', u ''updated_at'')]"

definition admin_user_updates :: "request \<Rightarrow> updates \<Rightarrow> updates" where
  "admin_user_updates req us =
     (let allowedRoles = [''user'', ''admin'', ''moderator''];
          allowedStatuses = [''active'', ''inactive'', ''suspended'', ''pending_verification''];
          us1 = add_if (''role'' \<in> set ALLOWED_USER_UPDATE_FIELDS
                        \<and> req_body req ''role'' \<in> set (map (Some \<circ> JStr) allowedRoles))
                  ''role'' (req_body req ''role'') us;
          us2 = add_if (''status'' \<in> set ALLOWED_USER_UPDATE_FIELDS
                        \<and> req_body req ''status'' \<in> set (map (Some \<circ> JStr) allowedStatuses))
                  ''status'' (req_body req ''status'') us1
      in us2)"

definition user_updates :: "request \<Rightarrow> bool \<Rightarrow> updates" where
  "user_updates req isAdmin =
     (let us1 = add_if (''first_name'' \<in> set ALLOWED_USER_UPDATE_FIELDS) ''first_name''
                  (req_body req ''firstName'') [];
          us2 = add_if (''last_name'' \<in> set ALLOWED_USER_UPDATE_FIELDS) ''last_name''
                  (req_body req ''lastName'') us1;
          us3 = add_if (''username'' \<in> set ALLOWED_USER_UPDATE_FIELDS) ''username''
                  (req_body req ''username'') us2;
          us4 = add_if (''bio'' \<in> set ALLOWED_USER_UPDATE_FIELDS) ''bio''
                  (req_body req ''bio'') us3;
          us5 = add_if (''avatar_url'' \<in> set ALLOWED_USER_UPDATE_FIELDS) ''avatar_url''
                  (req_body req ''avatarUrl'') us4
      in if isAdmin then admin_user_updates req us5 else us5)"

definition updateUser :: "env \<Rightarrow> request \<Rightarrow> db \<Rightarrow> response \<times> db" where
  "updateUser e req d =
     (case req_params req ''id'' of
        None \<Rightarrow> (reply 400 False ''Invalid user ID format'', d)
      | Some pid \<Rightarrow>
          if \<not> isUUID pid then (reply 400 False ''Invalid user ID format'', d)
          else if fails e SelUserById then (server_error, d)
          else (case select_by_id (users d) (Some (JStr pid)) of
              None \<Rightarrow> (reply 404 False ''User not found'', d)
            | Some existingUser \<Rightarrow>
                if truthy (req_body req ''username'')
                   \<and> \<not> strict_eq (req_body req ''username'') (existingUser ''username'')
                   \<and> fails e SelUsername
                then (server_error, d)
                else if truthy (req_body req ''username'')
                   \<and> \<not> strict_eq (req_body req ''username'') (existingUser ''username'')
                   \<and> list_ex (\<lambda>r. sql_eq (r ''username'') (req_body req ''username'')
                                    \<and> sql_neq (r ''id'') (Some (JStr pid))) (users d)
                then (reply 400 False ''Username already taken'', d)
                else (case req_user req of
                    None \<Rightarrow> (server_error, d)
                  | Some u \<Rightarrow>
                      (let isAdmin = strict_eq (u ''role'') (Some (JStr ''admin''));
                           canUpdateUser = (isAdmin \<or> strict_eq (u ''id'') (Some (JStr pid)));
                           us = user_updates req isAdmin
                       in if \<not> canUpdateUser
                          then (reply 403 False ''Insufficient permissions'', d)
                          else if us = [] then (reply 400 False ''No valid fields to update'', d)
                          else if fails e UpdUser then (server_error, d)
                          else (let d1 = d\<lparr>users := update_where_id (Some (JStr pid))
                                                        (apply_updates e us) (users d)\<rparr>;
                                    updatedUser = select_by_id (users d1) (Some (JStr pid))
                            in case createAuditLog e (u ''id'') ''update'' ''user''
                                      (Some (JStr pid)) (Some existingUser) updatedUser d1 of
                                 Inl error \<Rightarrow> (server_error, d1)
                               | Inr d2 \<Rightarrow>
                                   (case updatedUser of
                                      None \<Rightarrow> (server_error, d2)
                                    | Some r \<Rightarrow>
                                        (\<lparr> res_status = 200, res_success = True,
                                           res_message = Some ''User updated successfully'',
                                           res_data = [''user'' \<mapsto> user_json r] \<rparr>, d2)))))))"

section \<open>Routes (routes/messages.js, routes/users.js)\<close>

text \<open>
  The middleware in front of the list handlers: \<open>GET /api/messages\<close> is
  \<open>optionalAuth, validatePagination, getMessages\<close>; \<open>GET /api/users\<close> is
  \<open>authenticateToken, requireModerator, validatePagination, getUsers\<close>; \<open>PUT /api/users/:id\<close> is
  \<open>authenticateToken, validateUUID('id'), whitelistUserFields, updateUser\<close>.
\<close>

definition get_messages_route :: "env \<Rightarrow> db \<Rightarrow> request \<Rightarrow> response \<times> executed list" where
  "get_messages_route e d req =
     (case validatePagination (optionalAuth e d req) of
        Inl r \<Rightarrow> (r, [])
      | Inr req1 \<Rightarrow> getMessages e req1)"

definition get_users_route :: "env \<Rightarrow> db \<Rightarrow> request \<Rightarrow> response \<times> executed list" where
  "get_users_route e d req =
     (case authenticateToken e d req of
        Inl r \<Rightarrow> (r, [])
      | Inr req1 \<Rightarrow>
          (case requireModerator req1 of
             Inl r \<Rightarrow> (r, [])
           | Inr req2 \<Rightarrow>
               (case validatePagination req2 of
                  Inl r \<Rightarrow> (r, [])
                | Inr req3 \<Rightarrow> getUsers e req3)))"

definition put_user_route :: "env \<Rightarrow> request \<Rightarrow> db \<Rightarrow> response \<times> db" where
  "put_user_route e req d =
     (case authenticateToken e d req of
        Inl r \<Rightarrow> (r, d)
      | Inr req1 \<Rightarrow>
          (case req_params req1 ''id'' of
             None \<Rightarrow> (reply 400 False ''Validation failed'', d)
           | Some pid \<Rightarrow>
               if \<not> param_is_uuid e pid then (reply 400 False ''Validation failed'', d)
               else updateUser e (whitelistUserFields req1) d))"

section \<open>Example data\<close>

text \<open>
  A small database and environment on which the handlers are run: one active user
  \<open>u1\<close>, one administrator \<open>a1\<close>, and three refresh tokens of \<open>u1\<close>, of which \<open>live\<close> is usable,
  \<open>revoked\<close> is revoked before its expiry and \<open>stale\<close> is past its persisted expiry. The clock
  stands at 1000. \<open>jwt.verify\<close> accepts every string but \<open>old\<close> (expired) and \<open>forged\<close>
  (bad signature); \<open>admin-token\<close> is a token of \<open>a1\<close>, every other one a token of \<open>u1\<close>.
\<close>

definition u1 :: string where
  "u1 = ''11111111-1111-4111-8111-111111111111''"

definition a1 :: string where
  "a1 = ''aaaaaaaa-aaaa-4aaa-8aaa-aaaaaaaaaaaa''"

definition ex_user :: row where
  "ex_user = [''id'' \<mapsto> JStr u1, ''email'' \<mapsto> JStr ''u1@example.org'',
     ''password_hash'' \<mapsto> JStr ''$2a$14$hash'', ''username'' \<mapsto> JStr ''user_one'',
     ''first_name'' \<mapsto> JStr ''Uma'', ''last_name'' \<mapsto> JStr ''One'',
     ''role'' \<mapsto> JStr ''user'', ''status'' \<mapsto> JStr ''active'']"

definition ex_admin :: row where
  "ex_admin = [''id'' \<mapsto> JStr a1, ''email'' \<mapsto> JStr ''a1@example.org'',
     ''password_hash'' \<mapsto> JStr ''$2a$14$other'', ''username'' \<mapsto> JStr ''admin_one'',
     ''first_name'' \<mapsto> JStr ''Ada'', ''last_name'' \<mapsto> JStr ''Min'',
     ''role'' \<mapsto> JStr ''admin'', ''status'' \<mapsto> JStr ''active'']"

definition ex_db :: db where
  "ex_db = \<lparr> users = [ex_user, ex_admin], messages = [], message_tags = [],
     refresh_tokens =
       [\<lparr> token = ''live'', user_id = Some (JStr u1), expires_at = 5000, is_revoked = False \<rparr>,
        \<lparr> token = ''revoked'', user_id = Some (JStr u1), expires_at = 5000, is_revoked = True \<rparr>,
        \<lparr> token = ''stale'', user_id = Some (JStr u1), expires_at = 900, is_revoked = False \<rparr>],
     audit_logs = [], console = [] \<rparr>"

definition ex_env :: env where
  "ex_env = \<lparr> fails = (\<lambda>s. False), now = 1000,
     jwt_verify = (\<lambda>k s. if s = ''old'' then Inl TokenExpiredError
                          else if s = ''forged'' then Inl JsonWebTokenError
                          else if s = ''admin-token'' then Inr (Some (JStr a1))
                          else Inr (Some (JStr u1))),
     jwt_sign = (\<lambda>k u. Some ''access-token''),
     new_id = JStr ''44444444-4444-4444-8444-444444444444'', param_is_uuid = isUUID \<rparr>"

definition ex_req :: request where
  "ex_req = \<lparr> req_authorization = None, req_params = Map.empty, req_query = Map.empty,
     req_body = Map.empty, req_user = None \<rparr>"

definition refresh_req :: "string \<Rightarrow> request" where
  "refresh_req tok = ex_req\<lparr>req_body := [''refreshToken'' \<mapsto> JStr tok]\<rparr>"

definition bearer_req :: "string \<Rightarrow> request" where
  "bearer_req tok = ex_req\<lparr>req_authorization := Some (''Bearer '' @ tok)\<rparr>"

definition limit_req :: "string \<Rightarrow> request" where
  "limit_req v = ex_req\<lparr>req_query := [''limit'' \<mapsto> v]\<rparr>"

definition sort_req :: "string \<Rightarrow> string \<Rightarrow> request" where
  "sort_req tok v = (bearer_req tok)\<lparr>req_query := [''sort'' \<mapsto> v]\<rparr>"

text \<open>
  Requests for the handlers behind \<open>authenticateToken\<close>: \<open>u1\<close> creates a message; the
  administrator, or \<open>u1\<close>, updates the account of \<open>u1\<close> with a payload that also names
  \<open>email\<close>, \<open>password_hash\<close> and the role-gated fields.
\<close>

definition create_req :: "string \<Rightarrow> request" where
  "create_req title = ex_req\<lparr>
     req_body := [''title'' \<mapsto> JStr title, ''content'' \<mapsto> JStr ''Some content here''],
     req_user := Some (ex_user |` set auth_columns)\<rparr>"

definition user_update_req :: "row \<Rightarrow> request" where
  "user_update_req caller = ex_req\<lparr>
     req_params := [''id'' \<mapsto> u1],
     req_body := [''firstName'' \<mapsto> JStr ''Eve'', ''email'' \<mapsto> JStr ''eve@example.org'',
                  ''password_hash'' \<mapsto> JStr ''chosen'', ''role'' \<mapsto> JStr ''moderator'',
                  ''status'' \<mapsto> JStr ''suspended''],
     req_user := Some (caller |` set auth_columns)\<rparr>"

text \<open>
  A database with one active message of \<open>u1\<close>, viewed five times, and one hidden message of
  \<open>u1\<close>; an update of the first by its author that also names the gated fields; and a
  database whose one message is active and has \<open>NULL\<close> in \<open>view_count\<close>, which the column
  admits (\<open>view_count integer DEFAULT 0\<close>, without \<open>NOT NULL\<close>).
\<close>

definition m1 :: string where
  "m1 = ''22222222-2222-4222-8222-222222222222''"

definition m2 :: string where
  "m2 = ''33333333-3333-4333-8333-333333333333''"

definition ex_message :: row where
  "ex_message = [''id'' \<mapsto> JStr m1, ''title'' \<mapsto> JStr ''Hello World'',
     ''slug'' \<mapsto> JStr ''hello-world'', ''content'' \<mapsto> JStr ''Some content here'',
     ''status'' \<mapsto> JStr ''active'', ''author_id'' \<mapsto> JStr u1,
     ''is_featured'' \<mapsto> JBool False, ''is_pinned'' \<mapsto> JBool False,
     ''view_count'' \<mapsto> JNum 5]"

definition ex_hidden :: row where
  "ex_hidden = [''id'' \<mapsto> JStr m2, ''title'' \<mapsto> JStr ''Hidden Note'',
     ''slug'' \<mapsto> JStr ''hidden-note'', ''content'' \<mapsto> JStr ''Not for everyone'',
     ''status'' \<mapsto> JStr ''hidden'', ''author_id'' \<mapsto> JStr u1,
     ''is_featured'' \<mapsto> JBool False, ''is_pinned'' \<mapsto> JBool False,
     ''view_count'' \<mapsto> JNum 7]"




definition ex_db_messages :: db where
  "ex_db_messages = ex_db\<lparr>messages := [ex_message, ex_hidden]\<rparr>"

definition message_update_req :: request where
  "message_update_req = ex_req\<lparr>
     req_params := [''id'' \<mapsto> m1],
     req_body := [''title'' \<mapsto> JStr ''Hello World'', ''content'' \<mapsto> JStr ''Rewritten content'',
                  ''isFeatured'' \<mapsto> JBool True, ''isPinned'' \<mapsto> JBool True,
                  ''status'' \<mapsto> JStr ''flagged''],
     req_user := Some (ex_user |` set auth_columns)\<rparr>"

definition view_req :: "string \<Rightarrow> row option \<Rightarrow> request" where
  "view_req slug caller = ex_req\<lparr>req_params := [''slug'' \<mapsto> slug], req_user := caller\<rparr>"

text \<open>The cell of a column in the row with a given id.\<close>

definition cell :: "row list \<Rightarrow> string \<Rightarrow> string \<Rightarrow> jsval option" where
  "cell rows rid k = (case select_by_id rows (Some (JStr rid)) of None \<Rightarrow> None | Some r \<Rightarrow> r k)"

section \<open>Notions used by the properties\<close>

text \<open>The environment in which the \<open>INSERT\<close> into \<open>audit_logs\<close> fails, or does not.\<close>

definition audit_fails :: "bool \<Rightarrow> env \<Rightarrow> env" where
  "audit_fails b e = e\<lparr>fails := (fails e)(InsAuditLog := b)\<rparr>"

text \<open>Two databases with the same rows in every table but the audit trail, and any console.\<close>

definition same_data :: "db \<Rightarrow> db \<Rightarrow> bool" where
  "same_data a b = (users a = users b \<and> messages a = messages b
     \<and> message_tags a = message_tags b \<and> refresh_tokens a = refresh_tokens b)"

text \<open>Two outcomes of a handler with the same response and the same data.\<close>

definition agree :: "response \<times> db \<Rightarrow> response \<times> db \<Rightarrow> bool" where
  "agree x y = (fst x = fst y \<and> same_data (snd x) (snd y))"

text \<open>
  The role-gated fields, under the names of the columns and of the payload, and a
  request without them.
\<close>

definition gated_keys :: "string set" where
  "gated_keys = {''role'', ''status'', ''is_featured'', ''is_pinned'', ''isFeatured'', ''isPinned''}"

definition drop_gated :: "request \<Rightarrow> request" where
  "drop_gated req = req\<lparr>req_body := (\<lambda>k. if k \<in> gated_keys then None else req_body req k)\<rparr>"

definition caller_is_staff :: "request \<Rightarrow> bool" where
  "caller_is_staff req = (case req_user req of None \<Rightarrow> False | Some u \<Rightarrow> is_staff u)"

text \<open>
  The slug as the specification words it: lowercase, strip what is not in \<open>[a-z0-9 -]\<close>,
  turn white space into hyphens, collapse repeated hyphens.
\<close>

definition spec_slug :: "string \<Rightarrow> string" where
  "spec_slug title =
     collapse (\<lambda>c. c = CHR ''-'')
       (collapse (\<lambda>c. c = CHR '' '') (filter slug_char (map to_lower title)))"

fun no_double_hyphen :: "string \<Rightarrow> bool" where
  "no_double_hyphen (c # d # cs) = (\<not> (c = CHR ''-'' \<and> d = CHR ''-'') \<and> no_double_hyphen (d # cs))"
| "no_double_hyphen cs = True"

text \<open>The \<open>viewCount\<close> a response reports for its message.\<close>

definition reported_views :: "response \<Rightarrow> jsval option" where
  "reported_views r = (case res_data r ''message'' of None \<Rightarrow> None | Some m \<Rightarrow> field m ''viewCount'')"

definition reported_slug :: "response \<Rightarrow> jsval option" where
  "reported_slug r = (case res_data r ''message'' of None \<Rightarrow> None | Some m \<Rightarrow> field m ''slug'')"

section \<open>Properties of the password strength validator\<close>

text \<open>
  Claim C9. The validator reports a password valid exactly when it has at least 8
  characters, a lowercase letter, an uppercase letter and a digit. The special-character
  check adds one to the score and is reported in the feedback, and validity does not
  depend on it: two passwords that agree on the four required checks are equally valid,
  whatever their special characters.
\<close>

theorem validatePasswordStrength_valid_iff:
  "(isValid (validatePasswordStrength pw) \<longleftrightarrow>
      (8 \<le> length pw \<and> (\<exists>c \<in> set pw. is_lower c) \<and> (\<exists>c \<in> set pw. is_upper c)
       \<and> (\<exists>c \<in> set pw. is_digit c)))
   \<and> score (validatePasswordStrength pw) =
      length (filter id [\<exists>c \<in> set pw. is_lower c, \<exists>c \<in> set pw. is_upper c,
                         \<exists>c \<in> set pw. is_digit c])
      + (if \<exists>c \<in> set pw. is_special c then 1 else 0)
   \<and> fb_hasSpecialChar (feedback (validatePasswordStrength pw)) = (\<exists>c \<in> set pw. is_special c)
   \<and> (\<forall>pw'. (8 \<le> length pw) = (8 \<le> length pw') \<longrightarrow>
         (\<exists>c \<in> set pw. is_lower c) = (\<exists>c \<in> set pw'. is_lower c) \<longrightarrow>
         (\<exists>c \<in> set pw. is_upper c) = (\<exists>c \<in> set pw'. is_upper c) \<longrightarrow>
         (\<exists>c \<in> set pw. is_digit c) = (\<exists>c \<in> set pw'. is_digit c) \<longrightarrow>
         isValid (validatePasswordStrength pw) = isValid (validatePasswordStrength pw'))"
  by (simp add: validatePasswordStrength_def Let_def list_ex_iff)

theorem validatePasswordStrength_valid_iff_witness:
  "isValid (validatePasswordStrength ''Abcdefg1'')
   \<and> score (validatePasswordStrength ''Abcdefg1'') = 3
   \<and> \<not> fb_hasSpecialChar (feedback (validatePasswordStrength ''Abcdefg1''))
   \<and> isValid (validatePasswordStrength ''Abcdefg1!'')
   \<and> score (validatePasswordStrength ''Abcdefg1!'') = 4
   \<and> \<not> isValid (validatePasswordStrength ''abcdefg1!'')"
proof -
  have checks:
    "(8 \<le> length ''Abcdefg1'') = (8 \<le> length ''Abcdefg1!'')"
    "(\<exists>c \<in> set ''Abcdefg1''. is_lower c) = (\<exists>c \<in> set ''Abcdefg1!''. is_lower c)"
    "(\<exists>c \<in> set ''Abcdefg1''. is_upper c) = (\<exists>c \<in> set ''Abcdefg1!''. is_upper c)"
    "(\<exists>c \<in> set ''Abcdefg1''. is_digit c) = (\<exists>c \<in> set ''Abcdefg1!''. is_digit c)"
    by code_simp+
  have run:
    "isValid (validatePasswordStrength ''Abcdefg1'')
     \<and> score (validatePasswordStrength ''Abcdefg1'') = 3
     \<and> \<not> fb_hasSpecialChar (feedback (validatePasswordStrength ''Abcdefg1''))
     \<and> score (validatePasswordStrength ''Abcdefg1!'') = 4
     \<and> \<not> isValid (validatePasswordStrength ''abcdefg1!'')"
    by code_simp
  from validatePasswordStrength_valid_iff [of "''Abcdefg1''"] checks
  have "isValid (validatePasswordStrength ''Abcdefg1'')
      = isValid (validatePasswordStrength ''Abcdefg1!'')"
    by blast
  with run show ?thesis by simp
qed

section \<open>Refresh tokens and expired tokens\<close>

text \<open>
  Claim C1. A refresh request whose token has no persisted record, or a record that is
  revoked or past its persisted expiry, is answered 401 without an access token and
  without any change to the database. Nothing is assumed of \<open>jwt.verify\<close>: this holds
  also when the signature verifies and the expiry embedded in the token has not passed.
\<close>

theorem refreshToken_rejects_unusable_record:
  assumes "case select_refresh_token d (req_body req ''refreshToken'') of
             None \<Rightarrow> True
           | Some t \<Rightarrow> is_revoked t \<or> now e > expires_at t"
  shows "res_status (fst (refreshToken e req d)) = 401
       \<and> \<not> res_success (fst (refreshToken e req d))
       \<and> res_data (fst (refreshToken e req d)) ''accessToken'' = None
       \<and> snd (refreshToken e req d) = d"
  using assms
  by (simp add: refreshToken_def Let_def reply_def split: sum.splits option.splits)

theorem refreshToken_rejects_unusable_record_witness:
  "verify_token ex_env RefreshSecret (req_body (refresh_req ''revoked'') ''refreshToken'')
     = Inr (Some (JStr u1))
   \<and> map_option is_revoked (select_refresh_token ex_db (Some (JStr ''revoked''))) = Some True
   \<and> map_option expires_at (select_refresh_token ex_db (Some (JStr ''revoked''))) = Some 5000
   \<and> now ex_env = 1000
   \<and> res_status (fst (refreshToken ex_env (refresh_req ''revoked'') ex_db)) = 401
   \<and> res_data (fst (refreshToken ex_env (refresh_req ''revoked'') ex_db)) ''accessToken'' = None
   \<and> res_status (fst (refreshToken ex_env (refresh_req ''stale'') ex_db)) = 401
   \<and> res_status (fst (refreshToken ex_env (refresh_req ''absent'') ex_db)) = 401
   \<and> res_status (fst (refreshToken ex_env (refresh_req ''live'') ex_db)) = 200
   \<and> res_data (fst (refreshToken ex_env (refresh_req ''live'') ex_db)) ''accessToken''
       = Some (JStr ''access-token'')"
proof -
  have unusable:
    "(case select_refresh_token ex_db (req_body (refresh_req ''revoked'') ''refreshToken'') of
        None \<Rightarrow> True | Some t \<Rightarrow> is_revoked t \<or> now ex_env > expires_at t)"
    "(case select_refresh_token ex_db (req_body (refresh_req ''stale'') ''refreshToken'') of
        None \<Rightarrow> True | Some t \<Rightarrow> is_revoked t \<or> now ex_env > expires_at t)"
    "(case select_refresh_token ex_db (req_body (refresh_req ''absent'') ''refreshToken'') of
        None \<Rightarrow> True | Some t \<Rightarrow> is_revoked t \<or> now ex_env > expires_at t)"
    by code_simp+
  have run:
    "verify_token ex_env RefreshSecret (req_body (refresh_req ''revoked'') ''refreshToken'')
       = Inr (Some (JStr u1))
     \<and> map_option is_revoked (select_refresh_token ex_db (Some (JStr ''revoked''))) = Some True
     \<and> map_option expires_at (select_refresh_token ex_db (Some (JStr ''revoked''))) = Some 5000
     \<and> now ex_env = 1000
     \<and> res_status (fst (refreshToken ex_env (refresh_req ''live'') ex_db)) = 200
     \<and> res_data (fst (refreshToken ex_env (refresh_req ''live'') ex_db)) ''accessToken''
         = Some (JStr ''access-token'')"
    by code_simp
  show ?thesis
    using run refreshToken_rejects_unusable_record [OF unusable(1)]
      refreshToken_rejects_unusable_record [OF unusable(2)]
      refreshToken_rejects_unusable_record [OF unusable(3)]
    by simp
qed

lemma authenticateToken_failure:
  "bearer_token req = Some tok \<Longrightarrow> tok \<noteq> [] \<Longrightarrow> jwt_verify e AccessSecret tok = Inl err \<Longrightarrow>
     authenticateToken e d req =
       Inl (if err = TokenExpiredError then reply 401 False ''Token expired''
            else reply 403 False ''Invalid token'')"
  by (simp add: authenticateToken_def)

lemma refreshToken_failure:
  "truthy (req_body req ''refreshToken'') \<Longrightarrow>
   verify_token e RefreshSecret (req_body req ''refreshToken'') = Inl err \<Longrightarrow>
     refreshToken e req d = (reply 401 False ''Invalid refresh token'', d)"
  by (simp add: refreshToken_def Let_def)

text \<open>
  Claim C2, as the code has it. The authorization middleware answers an expired access
  token with 401 \<open>Token expired\<close> and every other verification failure with 403
  \<open>Invalid token\<close>. The refresh endpoint answers every verification failure of the
  refresh token, expired or not, with the same 401 \<open>Invalid refresh token\<close>.
\<close>

theorem verification_failure_responses:
  "(bearer_token req = Some tok \<and> tok \<noteq> [] \<and> jwt_verify e AccessSecret tok = Inl err \<longrightarrow>
      authenticateToken e d req =
        Inl (if err = TokenExpiredError then reply 401 False ''Token expired''
             else reply 403 False ''Invalid token''))
   \<and> (truthy (req_body req ''refreshToken'')
        \<and> verify_token e RefreshSecret (req_body req ''refreshToken'') = Inl err \<longrightarrow>
      refreshToken e req d = (reply 401 False ''Invalid refresh token'', d))"
  using authenticateToken_failure refreshToken_failure by blast

theorem verification_failure_responses_witness:
  "authenticateToken ex_env ex_db (bearer_req ''old'') = Inl (reply 401 False ''Token expired'')
   \<and> authenticateToken ex_env ex_db (bearer_req ''forged'') = Inl (reply 403 False ''Invalid token'')
   \<and> refreshToken ex_env (refresh_req ''old'') ex_db
       = (reply 401 False ''Invalid refresh token'', ex_db)
   \<and> refreshToken ex_env (refresh_req ''forged'') ex_db
       = (reply 401 False ''Invalid refresh token'', ex_db)"
proof -
  have access:
    "bearer_token (bearer_req ''old'') = Some ''old'' \<and> ''old'' \<noteq> []
       \<and> jwt_verify ex_env AccessSecret ''old'' = Inl TokenExpiredError"
    "bearer_token (bearer_req ''forged'') = Some ''forged'' \<and> ''forged'' \<noteq> []
       \<and> jwt_verify ex_env AccessSecret ''forged'' = Inl JsonWebTokenError"
    by code_simp+
  have refresh:
    "truthy (req_body (refresh_req ''old'') ''refreshToken'')
       \<and> verify_token ex_env RefreshSecret (req_body (refresh_req ''old'') ''refreshToken'')
           = Inl TokenExpiredError"
    "truthy (req_body (refresh_req ''forged'') ''refreshToken'')
       \<and> verify_token ex_env RefreshSecret (req_body (refresh_req ''forged'') ''refreshToken'')
           = Inl JsonWebTokenError"
    by code_simp+
  show ?thesis
    using access refresh
      verification_failure_responses [where req = "bearer_req ''old''" and tok = "''old''"
        and e = ex_env and err = TokenExpiredError and d = ex_db]
      verification_failure_responses [where req = "bearer_req ''forged''" and tok = "''forged''"
        and e = ex_env and err = JsonWebTokenError and d = ex_db]
      verification_failure_responses [where req = "refresh_req ''old''"
        and e = ex_env and err = TokenExpiredError and d = ex_db]
      verification_failure_responses [where req = "refresh_req ''forged''"
        and e = ex_env and err = JsonWebTokenError and d = ex_db]
    by simp
qed

text \<open>
  The claim as stated fails at the refresh endpoint: a refresh token with a bad
  signature is answered 401, not 403, and the answer is the one an expired refresh token
  gets.
\<close>

theorem refresh_expired_not_distinguished:
  "jwt_verify ex_env RefreshSecret ''old'' = Inl TokenExpiredError
   \<and> jwt_verify ex_env RefreshSecret ''forged'' = Inl JsonWebTokenError
   \<and> res_status (fst (refreshToken ex_env (refresh_req ''forged'') ex_db)) = 401
   \<and> res_status (fst (refreshToken ex_env (refresh_req ''forged'') ex_db)) \<noteq> 403
   \<and> fst (refreshToken ex_env (refresh_req ''old'') ex_db)
       = fst (refreshToken ex_env (refresh_req ''forged'') ex_db)"
proof -
  have refresh:
    "truthy (req_body (refresh_req ''old'') ''refreshToken'')"
    "verify_token ex_env RefreshSecret (req_body (refresh_req ''old'') ''refreshToken'')
       = Inl TokenExpiredError"
    "truthy (req_body (refresh_req ''forged'') ''refreshToken'')"
    "verify_token ex_env RefreshSecret (req_body (refresh_req ''forged'') ''refreshToken'')
       = Inl JsonWebTokenError"
    "jwt_verify ex_env RefreshSecret ''old'' = Inl TokenExpiredError"
    "jwt_verify ex_env RefreshSecret ''forged'' = Inl JsonWebTokenError"
    by code_simp+
  show ?thesis
    using refresh(5,6) refreshToken_failure [OF refresh(1,2), of ex_db]
      refreshToken_failure [OF refresh(3,4), of ex_db]
    by (simp add: reply_def)
qed

section \<open>Page size and sort key of the list handlers\<close>

lemma optionalAuth_query [simp]: "req_query (optionalAuth e d req) = req_query req"
  by (simp add: optionalAuth_def split: option.splits sum.splits)

lemma authenticateToken_query:
  "authenticateToken e d req = Inr req1 \<Longrightarrow> req_query req1 = req_query req"
  by (auto simp: authenticateToken_def split: option.splits sum.splits if_splits)

lemma requireModerator_query:
  "requireModerator req = Inr req1 \<Longrightarrow> req1 = req"
  by (auto simp: requireModerator_def requireRole_def split: option.splits if_splits)

lemma authenticateToken_status:
  "authenticateToken e d req = Inl r \<Longrightarrow> res_status r = 401 \<or> res_status r = 403"
  by (auto simp: authenticateToken_def reply_def split: option.splits sum.splits if_splits)

lemma requireModerator_status:
  "requireModerator req = Inl r \<Longrightarrow> res_status r = 401 \<or> res_status r = 403"
  by (auto simp: requireModerator_def requireRole_def reply_def split: option.splits if_splits)

lemma get_users_route_cases:
  "(\<exists>r. get_users_route e d req = (r, []) \<and> (res_status r = 401 \<or> res_status r = 403))
   \<or> (pagination_errors (req_query req) \<noteq> []
        \<and> get_users_route e d req = (reply 400 False ''Validation failed'', []))
   \<or> (pagination_errors (req_query req) = []
        \<and> (\<exists>req1. get_users_route e d req = getUsers e req1))"
proof (cases "authenticateToken e d req")
  case (Inl r)
  with authenticateToken_status [OF Inl] show ?thesis
    by (simp add: get_users_route_def)
next
  case (Inr req1)
  note auth = this
  show ?thesis
  proof (cases "requireModerator req1")
    case (Inl r)
    with auth requireModerator_status [OF Inl] show ?thesis
      by (simp add: get_users_route_def)
  next
    case (Inr req2)
    with auth authenticateToken_query [OF auth] requireModerator_query [OF Inr] show ?thesis
      by (auto simp: get_users_route_def validatePagination_def)
  qed
qed

lemma isInt_99999: "\<not> isInt_range 1 100 ''99999''"
  by (simp add: isInt_range_def unsigned_part_def number_of_digits_def digit_value_def
      is_digit_def in_range_def)

lemma parseInt_99999: "parseInt (Some ''99999'') = Some 99999"
  by (simp add: parseInt_def unsigned_part_def number_of_digits_def digit_value_def
      is_digit_def is_space_def in_range_def Let_def)

lemma limit_99999_refused: "q ''limit'' = Some ''99999'' \<Longrightarrow> pagination_errors q \<noteq> []"
  by (simp add: pagination_errors_def isInt_99999)

lemma password_hash_refused: "q ''sort'' = Some ''password_hash'' \<Longrightarrow> pagination_errors q \<noteq> []"
  by (simp add: pagination_errors_def ALLOWED_SORT_FIELDS_def)

lemma getMessages_limit:
  "q \<in> set (snd (getMessages e req)) \<Longrightarrow> page_limit q = Some l \<Longrightarrow> l \<le> 100"
  by (auto simp: getMessages_def Let_def split: if_splits)

lemma getUsers_limit:
  "q \<in> set (snd (getUsers e req)) \<Longrightarrow> page_limit q = Some l \<Longrightarrow> l \<le> 100"
  by (auto simp: getUsers_def Let_def split: if_splits)

lemma get_messages_route_limit:
  "q \<in> set (snd (get_messages_route e d req)) \<Longrightarrow> page_limit q = Some l \<Longrightarrow> l \<le> 100"
  by (auto simp: get_messages_route_def dest: getMessages_limit split: sum.splits)

lemma get_users_route_limit:
  "q \<in> set (snd (get_users_route e d req)) \<Longrightarrow> page_limit q = Some l \<Longrightarrow> l \<le> 100"
  by (auto simp: get_users_route_def dest: getUsers_limit split: sum.splits)

text \<open>
  Claim C4, as the code has it. Every page query that a list handler sends, behind its
  route or called directly, has a \<open>LIMIT\<close> of at most 100. A request with
  \<open>limit=99999\<close> to \<open>GET /api/messages\<close> is refused by \<open>validatePagination\<close> with 400 before
  any query is sent, and one to \<open>GET /api/users\<close> is refused too (400, or 401 or 403 from
  the authorization in front); the handler itself, given that parameter, would send
  the page query with \<open>LIMIT\<close> 100.
\<close>

theorem page_size_at_most_100:
  "(\<forall>q \<in> set (snd (getMessages e req)). \<forall>l. page_limit q = Some l \<longrightarrow> l \<le> 100)
   \<and> (\<forall>q \<in> set (snd (getUsers e req)). \<forall>l. page_limit q = Some l \<longrightarrow> l \<le> 100)
   \<and> (\<forall>q \<in> set (snd (get_messages_route e d req)). \<forall>l. page_limit q = Some l \<longrightarrow> l \<le> 100)
   \<and> (\<forall>q \<in> set (snd (get_users_route e d req)). \<forall>l. page_limit q = Some l \<longrightarrow> l \<le> 100)
   \<and> (req_query req ''limit'' = Some ''99999'' \<longrightarrow>
        get_messages_route e d req = (reply 400 False ''Validation failed'', [])
        \<and> snd (get_users_route e d req) = []
        \<and> res_status (fst (get_users_route e d req)) \<in> {400, 401, 403}
        \<and> (\<not> fails e CountMessages \<and> \<not> fails e SelMessages \<longrightarrow>
             map page_limit (snd (getMessages e req)) = [None, Some 100]))"
proof -
  have route: "get_messages_route e d req = (reply 400 False ''Validation failed'', [])"
    if "req_query req ''limit'' = Some ''99999''"
    using limit_99999_refused [of "req_query req"] that
    by (simp add: get_messages_route_def validatePagination_def)
  have handler: "map page_limit (snd (getMessages e req)) = [None, Some 100]"
    if "req_query req ''limit'' = Some ''99999''" "\<not> fails e CountMessages" "\<not> fails e SelMessages"
    using that by (simp add: getMessages_def Let_def parseInt_99999 int_or_def)
  have users: "snd (get_users_route e d req) = []
      \<and> res_status (fst (get_users_route e d req)) \<in> {400, 401, 403}"
    if asked: "req_query req ''limit'' = Some ''99999''"
  proof -
    have bad: "pagination_errors (req_query req) \<noteq> []"
      using limit_99999_refused [of "req_query req"] asked by simp
    from get_users_route_cases [of e d req]
    consider (auth) r where "get_users_route e d req = (r, [])"
        "res_status r = 401 \<or> res_status r = 403"
      | (invalid) "get_users_route e d req = (reply 400 False ''Validation failed'', [])"
      | (valid) "pagination_errors (req_query req) = []"
      by blast
    then show ?thesis
    proof cases
      case auth
      then show ?thesis by auto
    next
      case invalid
      then show ?thesis by (simp add: reply_def)
    next
      case valid
      with bad show ?thesis by simp
    qed
  qed
  show ?thesis
    using route handler users getMessages_limit getUsers_limit get_messages_route_limit
      get_users_route_limit
    by blast
qed

theorem page_size_at_most_100_witness:
  "map page_limit (snd (getMessages ex_env (limit_req ''250''))) = [None, Some 100]
   \<and> map page_limit (snd (get_messages_route ex_env ex_db (limit_req ''25''))) = [None, Some 25]
   \<and> res_status (fst (get_messages_route ex_env ex_db (limit_req ''99999''))) = 400
   \<and> snd (get_messages_route ex_env ex_db (limit_req ''99999'')) = []
   \<and> map page_limit (snd (getMessages ex_env (limit_req ''99999''))) = [None, Some 100]"
proof -
  have asked: "req_query (limit_req ''99999'') ''limit'' = Some ''99999''"
    by code_simp
  have run: "map page_limit (snd (getMessages ex_env (limit_req ''250''))) = [None, Some 100]
   \<and> map page_limit (snd (get_messages_route ex_env ex_db (limit_req ''25''))) = [None, Some 25]
   \<and> map page_limit (snd (getMessages ex_env (limit_req ''99999''))) = [None, Some 100]"
    by code_simp
  from page_size_at_most_100 [where e = ex_env and d = ex_db and req = "limit_req ''99999''"] asked
  have "get_messages_route ex_env ex_db (limit_req ''99999'')
      = (reply 400 False ''Validation failed'', [])"
    by blast
  then have "res_status (fst (get_messages_route ex_env ex_db (limit_req ''99999''))) = 400
      \<and> snd (get_messages_route ex_env ex_db (limit_req ''99999'')) = []"
    by (simp add: reply_def)
  with run show ?thesis by simp
qed

text \<open>
  The claim as stated fails on the route: the request with \<open>limit=99999\<close> is answered
  400 and no query is sent, with \<open>LIMIT\<close> 100 or any other.
\<close>

theorem limit_99999_rejected:
  "get_messages_route ex_env ex_db (limit_req ''99999'')
     = (reply 400 False ''Validation failed'', [])"
  by (simp add: get_messages_route_def validatePagination_def limit_req_def ex_req_def
      limit_99999_refused)

lemma getUsers_sort:
  "q \<in> set (snd (getUsers e req)) \<Longrightarrow> page_sort q = Some (c, dir) \<Longrightarrow>
     c \<in> set user_sort_fields \<and> (dir = ''asc'' \<or> dir = ''desc'')"
  by (auto simp: getUsers_def Let_def user_sort_fields_def split: if_splits option.splits)

lemma getMessages_sort:
  "q \<in> set (snd (getMessages e req)) \<Longrightarrow> page_sort q = Some (c, dir) \<Longrightarrow>
     c \<in> set message_sort_fields \<and> (dir = ''asc'' \<or> dir = ''desc'')"
  by (auto simp: getMessages_def Let_def message_sort_fields_def split: if_splits option.splits)

lemma getUsers_password_hash:
  assumes "req_query req ''sort'' = Some ''password_hash''"
    and "q \<in> set (snd (getUsers e req))" and "page_sort q = Some (c, dir)"
  shows "c = ''created_at'' \<and> (req_query req ''order'' \<noteq> Some ''asc'' \<longrightarrow> dir = ''desc'')"
  using assms
  by (auto simp: getUsers_def Let_def user_sort_fields_def split: if_splits)

lemma get_users_route_sort:
  assumes "q \<in> set (snd (get_users_route e d req))" and "page_sort q = Some (c, dir)"
  shows "c \<in> set user_sort_fields \<and> (dir = ''asc'' \<or> dir = ''desc'')"
  using get_users_route_cases [of e d req] assms getUsers_sort by fastforce

lemma get_users_route_password_hash:
  assumes "req_query req ''sort'' = Some ''password_hash''"
  shows "snd (get_users_route e d req) = []
       \<and> res_status (fst (get_users_route e d req)) \<in> {400, 401, 403}"
proof -
  have bad: "pagination_errors (req_query req) \<noteq> []"
    using password_hash_refused [of "req_query req"] assms by simp
  from get_users_route_cases [of e d req]
  consider (auth) r where "get_users_route e d req = (r, [])"
      "res_status r = 401 \<or> res_status r = 403"
    | (invalid) "get_users_route e d req = (reply 400 False ''Validation failed'', [])"
    | (valid) "pagination_errors (req_query req) = []"
    by blast
  then show ?thesis
  proof cases
    case auth
    then show ?thesis by auto
  next
    case invalid
    then show ?thesis by (simp add: reply_def)
  next
    case valid
    with bad show ?thesis by simp
  qed
qed

text \<open>
  Claim C7. The \<open>ORDER BY\<close> column of every page query of the user list, behind its route
  or not, is one of the five columns of the handler's allow-list, which does not
  contain \<open>password_hash\<close>, and the direction is \<open>asc\<close> or \<open>desc\<close>. A request with
  \<open>sort=password_hash\<close> is rejected on the route without any query (400 from
  \<open>validatePagination\<close>, or 401 or 403 from the authorization in front of it); in the
  handler the column falls back to \<open>created_at\<close>, descending unless \<open>order=asc\<close> was
  asked. The message list does the same with its own allow-list.
\<close>

theorem sort_key_allow_listed:
  "''password_hash'' \<notin> set user_sort_fields
   \<and> (\<forall>q \<in> set (snd (getUsers e req)). \<forall>c dir. page_sort q = Some (c, dir) \<longrightarrow>
         c \<in> set user_sort_fields \<and> (dir = ''asc'' \<or> dir = ''desc''))
   \<and> (\<forall>q \<in> set (snd (get_users_route e d req)). \<forall>c dir. page_sort q = Some (c, dir) \<longrightarrow>
         c \<in> set user_sort_fields \<and> (dir = ''asc'' \<or> dir = ''desc''))
   \<and> (\<forall>q \<in> set (snd (getMessages e req)). \<forall>c dir. page_sort q = Some (c, dir) \<longrightarrow>
         c \<in> set message_sort_fields \<and> (dir = ''asc'' \<or> dir = ''desc''))
   \<and> (req_query req ''sort'' = Some ''password_hash'' \<longrightarrow>
         snd (get_users_route e d req) = []
         \<and> res_status (fst (get_users_route e d req)) \<in> {400, 401, 403}
         \<and> (\<forall>q \<in> set (snd (getUsers e req)). \<forall>c dir. page_sort q = Some (c, dir) \<longrightarrow>
               c = ''created_at'' \<and> (req_query req ''order'' \<noteq> Some ''asc'' \<longrightarrow> dir = ''desc'')))"
proof -
  have "''password_hash'' \<notin> set user_sort_fields"
    by (simp add: user_sort_fields_def)
  then show ?thesis
    using getUsers_sort [of _ e req] get_users_route_sort [of _ e d req]
      getMessages_sort [of _ e req] get_users_route_password_hash [of req e d]
      getUsers_password_hash [of req _ e]
    by blast
qed

theorem sort_key_allow_listed_witness:
  "res_status (fst (get_users_route ex_env ex_db (sort_req ''admin-token'' ''password_hash''))) = 400
   \<and> snd (get_users_route ex_env ex_db (sort_req ''admin-token'' ''password_hash'')) = []
   \<and> map page_sort (snd (getUsers ex_env (sort_req ''admin-token'' ''password_hash'')))
       = [None, Some (''created_at'', ''desc'')]
   \<and> map page_sort (snd (getUsers ex_env (sort_req ''admin-token'' ''email'')))
       = [None, Some (''email'', ''desc'')]
   \<and> map page_sort (snd (get_users_route ex_env ex_db (sort_req ''admin-token'' ''updated_at'')))
       = [None, Some (''updated_at'', ''desc'')]"
proof -
  have asked: "req_query (sort_req ''admin-token'' ''password_hash'') ''sort'' = Some ''password_hash''"
    by code_simp
  have run: "res_status (fst (get_users_route ex_env ex_db (sort_req ''admin-token'' ''password_hash''))) = 400
   \<and> map page_sort (snd (getUsers ex_env (sort_req ''admin-token'' ''password_hash'')))
       = [None, Some (''created_at'', ''desc'')]
   \<and> map page_sort (snd (getUsers ex_env (sort_req ''admin-token'' ''email'')))
       = [None, Some (''email'', ''desc'')]
   \<and> map page_sort (snd (get_users_route ex_env ex_db (sort_req ''admin-token'' ''updated_at'')))
       = [None, Some (''updated_at'', ''desc'')]"
    by code_simp
  from sort_key_allow_listed [where e = ex_env and d = ex_db
      and req = "sort_req ''admin-token'' ''password_hash''"] asked
  have "snd (get_users_route ex_env ex_db (sort_req ''admin-token'' ''password_hash'')) = []"
    by blast
  with run show ?thesis by simp
qed

section \<open>Failing audit writes\<close>

lemma createAuditLog_returns:
  "createAuditLog e userId action resourceType resourceId oldValues newValues d =
     Inr (if fails e InsAuditLog
          then d\<lparr>console := console d @ [''Failed to create audit log:audit_logs insert failed'']\<rparr>
          else d\<lparr>audit_logs := audit_logs d @
                 [\<lparr> au_user_id = userId, au_action = action, au_resource_type = resourceType,
                    au_resource_id = resourceId, au_old_values = oldValues,
                    au_new_values = newValues \<rparr>]\<rparr>)"
  by (simp add: createAuditLog_def insert_audit_log_def)

lemma audit_fails_fields [simp]:
  "fails (audit_fails b e) InsAuditLog = b"
  "s \<noteq> InsAuditLog \<Longrightarrow> fails (audit_fails b e) s = fails e s"
  "now (audit_fails b e) = now e"
  "new_id (audit_fails b e) = new_id e"
  by (simp_all add: audit_fails_def)

lemma insert_tags_audit [simp]:
  "insert_tags (audit_fails b e) mid ts d = insert_tags e mid ts d"
  by (induction ts arbitrary: d) simp_all

lemma add_tags_audit [simp]:
  "add_tags (audit_fails b e) mid tags d = add_tags e mid tags d"
  by (simp add: add_tags_def split: option.splits jsval.splits)

lemma replace_tags_audit [simp]:
  "replace_tags (audit_fails b e) mid tags d = replace_tags e mid tags d"
  by (simp add: replace_tags_def split: option.splits jsval.splits cong: if_cong)

lemma new_message_row_audit [simp]:
  "new_message_row (audit_fails b e) = new_message_row e"
  by (rule ext)+ (simp add: new_message_row_def cong: if_cong)

lemma title_updates_audit [simp]:
  "title_updates (audit_fails b e) = title_updates e"
  by (rule ext)+ (simp add: title_updates_def cong: if_cong option.case_cong)

lemma gated_message_updates_audit [simp]:
  "gated_message_updates (audit_fails b e) = gated_message_updates e"
  by (rule ext)+ (simp add: gated_message_updates_def cong: if_cong)

lemma message_updates_audit [simp]:
  "message_updates (audit_fails b e) = message_updates e"
  by (rule ext)+ (simp add: message_updates_def cong: if_cong option.case_cong)

lemma apply_updates_audit [simp]:
  "apply_updates (audit_fails b e) = apply_updates e"
  by (rule ext)+ (simp add: apply_updates_def)

lemma agree_refl [simp]: "agree x x"
  by (simp add: agree_def same_data_def)

lemma agree_if:
  "(c \<Longrightarrow> agree x x') \<Longrightarrow> (\<not> c \<Longrightarrow> agree y y') \<Longrightarrow>
     agree (if c then x else y) (if c then x' else y')"
  by simp

lemma agree_option:
  "(v = None \<Longrightarrow> agree a a') \<Longrightarrow> (\<And>x. v = Some x \<Longrightarrow> agree (f x) (f' x)) \<Longrightarrow>
     agree (case v of None \<Rightarrow> a | Some x \<Rightarrow> f x) (case v of None \<Rightarrow> a' | Some x \<Rightarrow> f' x)"
  by (cases v) simp_all

lemma agree_sum:
  "(\<And>x. v = Inl x \<Longrightarrow> agree (f x) (f' x)) \<Longrightarrow> (\<And>y. v = Inr y \<Longrightarrow> agree (g y) (g' y)) \<Longrightarrow>
     agree (case v of Inl x \<Rightarrow> f x | Inr y \<Rightarrow> g y) (case v of Inl x \<Rightarrow> f' x | Inr y \<Rightarrow> g' y)"
  by (cases v) simp_all

lemmas audit_cong = if_cong option.case_cong sum.case_cong jsval.case_cong

lemma createMessage_audit:
  "agree (createMessage (audit_fails b e) req d) (createMessage (audit_fails False e) req d)"
  unfolding createMessage_def Let_def
  apply (simp split del: if_split cong: audit_cong)
  apply (intro agree_option agree_if agree_sum)
  apply (simp_all add: createAuditLog_returns agree_def same_data_def)
  done

lemma updateMessage_audit:
  "agree (updateMessage (audit_fails b e) req d) (updateMessage (audit_fails False e) req d)"
  unfolding updateMessage_def Let_def
  apply (simp split del: if_split cong: audit_cong)
  apply (intro agree_option agree_if agree_sum)
  apply (simp_all add: createAuditLog_returns agree_def same_data_def split: option.splits)
  done

lemma updateUser_audit:
  "agree (updateUser (audit_fails b e) req d) (updateUser (audit_fails False e) req d)"
  unfolding updateUser_def Let_def
  apply (simp split del: if_split cong: audit_cong)
  apply (intro agree_option agree_if agree_sum)
  apply (simp_all add: createAuditLog_returns agree_def same_data_def split: option.splits)
  done

text \<open>
  Claim C8. \<open>createAuditLog\<close> always returns: a failing \<open>INSERT\<close> leaves the audit trail
  as it was and adds one line to the console. The handlers that call it
  (\<open>createMessage\<close>, \<open>updateMessage\<close>, \<open>updateUser\<close>) give the same response, and leave
  the same rows in every other table, whether the audit write fails or succeeds.
\<close>

theorem audit_failure_is_swallowed:
  "(\<exists>d'. createAuditLog e userId action resourceType resourceId oldValues newValues d = Inr d'
         \<and> same_data d' d
         \<and> (fails e InsAuditLog \<longrightarrow>
               audit_logs d' = audit_logs d \<and> length (console d') = Suc (length (console d))))
   \<and> agree (createMessage (audit_fails True e) req d) (createMessage (audit_fails False e) req d)
   \<and> agree (updateMessage (audit_fails True e) req d) (updateMessage (audit_fails False e) req d)
   \<and> agree (updateUser (audit_fails True e) req d) (updateUser (audit_fails False e) req d)"
  using createMessage_audit [of True e req d] updateMessage_audit [of True e req d]
    updateUser_audit [of True e req d]
  by (simp add: createAuditLog_returns same_data_def)

theorem audit_failure_is_swallowed_witness:
  "res_status (fst (createMessage (audit_fails True ex_env) (create_req ''Hello World'') ex_db)) = 201
   \<and> length (messages (snd (createMessage (audit_fails True ex_env) (create_req ''Hello World'') ex_db))) = 1
   \<and> length (audit_logs (snd (createMessage (audit_fails True ex_env) (create_req ''Hello World'') ex_db))) = 0
   \<and> length (console (snd (createMessage (audit_fails True ex_env) (create_req ''Hello World'') ex_db))) = 1
   \<and> length (audit_logs (snd (createMessage (audit_fails False ex_env) (create_req ''Hello World'') ex_db))) = 1
   \<and> agree (createMessage (audit_fails True ex_env) (create_req ''Hello World'') ex_db)
            (createMessage (audit_fails False ex_env) (create_req ''Hello World'') ex_db)"
proof -
  have run:
    "res_status (fst (createMessage (audit_fails True ex_env) (create_req ''Hello World'') ex_db)) = 201
     \<and> length (messages (snd (createMessage (audit_fails True ex_env) (create_req ''Hello World'') ex_db))) = 1
     \<and> length (audit_logs (snd (createMessage (audit_fails True ex_env) (create_req ''Hello World'') ex_db))) = 0
     \<and> length (console (snd (createMessage (audit_fails True ex_env) (create_req ''Hello World'') ex_db))) = 1
     \<and> length (audit_logs (snd (createMessage (audit_fails False ex_env) (create_req ''Hello World'') ex_db))) = 1"
    by code_simp
  from audit_failure_is_swallowed [where e = ex_env and req = "create_req ''Hello World''"
      and d = ex_db]
  have "agree (createMessage (audit_fails True ex_env) (create_req ''Hello World'') ex_db)
          (createMessage (audit_fails False ex_env) (create_req ''Hello World'') ex_db)"
    by blast
  with run show ?thesis by simp
qed

section \<open>Field whitelisting in the update handlers\<close>

lemma drop_gated_fields [simp]:
  "req_user (drop_gated req) = req_user req"
  "req_params (drop_gated req) = req_params req"
  "req_query (drop_gated req) = req_query req"
  "req_body (drop_gated req) ''title'' = req_body req ''title''"
  "req_body (drop_gated req) ''content'' = req_body req ''content''"
  "req_body (drop_gated req) ''excerpt'' = req_body req ''excerpt''"
  "req_body (drop_gated req) ''categoryId'' = req_body req ''categoryId''"
  "req_body (drop_gated req) ''tags'' = req_body req ''tags''"
  "req_body (drop_gated req) ''firstName'' = req_body req ''firstName''"
  "req_body (drop_gated req) ''lastName'' = req_body req ''lastName''"
  "req_body (drop_gated req) ''username'' = req_body req ''username''"
  "req_body (drop_gated req) ''bio'' = req_body req ''bio''"
  "req_body (drop_gated req) ''avatarUrl'' = req_body req ''avatarUrl''"
  by (simp_all add: drop_gated_def gated_keys_def)

lemma message_updates_drop_gated:
  "\<not> is_staff u \<Longrightarrow> message_updates e d (drop_gated req) u ex = message_updates e d req u ex"
  by (simp add: message_updates_def Let_def cong: audit_cong)

lemma user_updates_drop_gated:
  "user_updates (drop_gated req) False = user_updates req False"
  by (simp add: user_updates_def Let_def)

lemma updateMessage_drop_gated:
  assumes "\<not> caller_is_staff req"
  shows "updateMessage e (drop_gated req) d = updateMessage e req d"
proof (cases "req_user req")
  case None
  then show ?thesis
    by (simp add: updateMessage_def Let_def cong: audit_cong)
next
  case (Some u)
  with assms have "\<not> is_staff u"
    by (simp add: caller_is_staff_def)
  with Some show ?thesis
    by (simp add: updateMessage_def Let_def message_updates_drop_gated cong: audit_cong)
qed

lemma updateUser_drop_gated:
  assumes "\<not> caller_is_staff req"
  shows "updateUser e (drop_gated req) d = updateUser e req d"
proof (cases "req_user req")
  case None
  then show ?thesis
    by (simp add: updateUser_def Let_def cong: audit_cong)
next
  case (Some u)
  with assms have "\<not> strict_eq (u ''role'') (Some (JStr ''admin''))"
    by (simp add: caller_is_staff_def is_staff_def)
  with Some show ?thesis
    by (simp add: updateUser_def Let_def user_updates_drop_gated cong: audit_cong)
qed

lemma add_if_keys: "fst ` set us \<subseteq> A \<Longrightarrow> k \<in> A \<Longrightarrow> fst ` set (add_if c k v us) \<subseteq> A"
  by (auto simp: add_if_def split: option.splits if_splits)

lemma title_updates_keys:
  "title_updates e d rid ex title = Some us \<Longrightarrow> fst ` set us \<subseteq> {''title'', ''slug''}"
  by (auto simp: title_updates_def split: option.splits if_splits)

lemma message_updates_keys:
  assumes "\<not> is_staff u" and "message_updates e d req u ex = Some us"
  shows "fst ` set us \<subseteq> {''title'', ''slug'', ''content'', ''excerpt'', ''category_id''}"
proof -
  from assms obtain us0 where t: "title_updates e d (map_option JStr (req_params req ''id'')) ex
        (req_body req ''title'') = Some us0"
    and us: "us = add_if (''category_id'' \<in> set ALLOWED_MESSAGE_UPDATE_FIELDS) ''category_id''
        (req_body req ''categoryId'')
        (add_if (''excerpt'' \<in> set ALLOWED_MESSAGE_UPDATE_FIELDS) ''excerpt'' (req_body req ''excerpt'')
          (add_if (''content'' \<in> set ALLOWED_MESSAGE_UPDATE_FIELDS) ''content''
            (req_body req ''content'') us0))"
    by (auto simp: message_updates_def Let_def split: option.splits)
  from title_updates_keys [OF t]
  have "fst ` set us0 \<subseteq> {''title'', ''slug'', ''content'', ''excerpt'', ''category_id''}"
    by auto
  then show ?thesis
    unfolding us by (intro add_if_keys) simp_all
qed

lemma user_updates_keys_plain:
  "fst ` set (user_updates req False)
     \<subseteq> {''first_name'', ''last_name'', ''username'', ''bio'', ''avatar_url''}"
  by (auto simp: user_updates_def Let_def add_if_def split: option.splits if_splits)

text \<open>
  Claim C6. When the caller is neither administrator nor moderator, \<open>updateMessage\<close> and
  \<open>updateUser\<close> answer a request, and change the database, exactly as they do for the same
  request without the role-gated fields: the fields are ignored and the request is
  neither rejected nor otherwise treated differently for naming them. The generated
  update of such a caller has none of the gated columns.
\<close>

theorem gated_fields_ignored:
  "\<not> caller_is_staff req \<longrightarrow>
     updateMessage e req d = updateMessage e (drop_gated req) d
     \<and> updateUser e req d = updateUser e (drop_gated req) d
     \<and> (\<forall>u ex us. req_user req = Some u \<longrightarrow> message_updates e d req u ex = Some us \<longrightarrow>
           fst ` set us \<inter> {''is_featured'', ''is_pinned'', ''status'', ''published_at''} = {})
     \<and> fst ` set (user_updates req False) \<inter> {''role'', ''status''} = {}"
proof (intro impI conjI allI)
  assume plain: "\<not> caller_is_staff req"
  show "updateMessage e req d = updateMessage e (drop_gated req) d"
    using updateMessage_drop_gated [OF plain] by simp
  show "updateUser e req d = updateUser e (drop_gated req) d"
    using updateUser_drop_gated [OF plain] by simp
  show "fst ` set (user_updates req False) \<inter> {''role'', ''status''} = {}"
    using user_updates_keys_plain [of req] by auto
  fix u ex us
  assume "req_user req = Some u" and us: "message_updates e d req u ex = Some us"
  with plain have "\<not> is_staff u"
    by (simp add: caller_is_staff_def)
  from message_updates_keys [OF this us]
  show "fst ` set us \<inter> {''is_featured'', ''is_pinned'', ''status'', ''published_at''} = {}"
    by auto
qed

theorem gated_fields_ignored_witness:
  "\<not> caller_is_staff (user_update_req ex_user)
   \<and> res_status (fst (updateUser ex_env (user_update_req ex_user) ex_db)) = 200
   \<and> cell (users (snd (updateUser ex_env (user_update_req ex_user) ex_db))) u1 ''first_name''
       = Some (JStr ''Eve'')
   \<and> cell (users (snd (updateUser ex_env (user_update_req ex_user) ex_db))) u1 ''role''
       = Some (JStr ''user'')
   \<and> cell (users (snd (updateUser ex_env (user_update_req ex_user) ex_db))) u1 ''status''
       = Some (JStr ''active'')
   \<and> cell (users (snd (updateUser ex_env (user_update_req ex_admin) ex_db))) u1 ''role''
       = Some (JStr ''moderator'')
   \<and> res_status (fst (updateMessage ex_env message_update_req ex_db_messages)) = 200
   \<and> cell (messages (snd (updateMessage ex_env message_update_req ex_db_messages))) m1 ''content''
       = Some (JStr ''Rewritten content'')
   \<and> cell (messages (snd (updateMessage ex_env message_update_req ex_db_messages))) m1 ''status''
       = Some (JStr ''active'')
   \<and> cell (messages (snd (updateMessage ex_env message_update_req ex_db_messages))) m1 ''is_featured''
       = Some (JBool False)
   \<and> updateUser ex_env (user_update_req ex_user) ex_db
       = updateUser ex_env (drop_gated (user_update_req ex_user)) ex_db
   \<and> updateMessage ex_env message_update_req ex_db_messages
       = updateMessage ex_env (drop_gated message_update_req) ex_db_messages"
proof -
  have plain: "\<not> caller_is_staff (user_update_req ex_user)" "\<not> caller_is_staff message_update_req"
    by code_simp+
  have run:
    "res_status (fst (updateUser ex_env (user_update_req ex_user) ex_db)) = 200
     \<and> cell (users (snd (updateUser ex_env (user_update_req ex_user) ex_db))) u1 ''first_name''
         = Some (JStr ''Eve'')
     \<and> cell (users (snd (updateUser ex_env (user_update_req ex_user) ex_db))) u1 ''role''
         = Some (JStr ''user'')
     \<and> cell (users (snd (updateUser ex_env (user_update_req ex_user) ex_db))) u1 ''status''
         = Some (JStr ''active'')
     \<and> cell (users (snd (updateUser ex_env (user_update_req ex_admin) ex_db))) u1 ''role''
         = Some (JStr ''moderator'')
     \<and> res_status (fst (updateMessage ex_env message_update_req ex_db_messages)) = 200
     \<and> cell (messages (snd (updateMessage ex_env message_update_req ex_db_messages))) m1 ''content''
         = Some (JStr ''Rewritten content'')
     \<and> cell (messages (snd (updateMessage ex_env message_update_req ex_db_messages))) m1 ''status''
         = Some (JStr ''active'')
     \<and> cell (messages (snd (updateMessage ex_env message_update_req ex_db_messages))) m1 ''is_featured''
         = Some (JBool False)"
    by code_simp
  show ?thesis
    using plain run
      gated_fields_ignored [where req = "user_update_req ex_user" and e = ex_env and d = ex_db]
      gated_fields_ignored [where req = message_update_req and e = ex_env and d = ex_db_messages]
    by simp
qed

section \<open>Columns the user update leaves alone\<close>

lemma set_columns_frame:
  "k \<notin> fst ` set us \<Longrightarrow> foldl (\<lambda>r (k, v). set_column k (Some v) r) r us k = r k"
  by (induction us arbitrary: r) (auto simp: set_column_def)

lemma apply_updates_frame:
  "k \<notin> fst ` set us \<Longrightarrow> k \<noteq> ''updated_at'' \<Longrightarrow> apply_updates e us r k = r k"
  by (simp add: apply_updates_def set_column_def [of "''updated_at''"] set_columns_frame)

lemma update_where_id_frame:
  "(\<And>r. f r k = r k) \<Longrightarrow> map (\<lambda>r. r k) (update_where_id rid f rows) = map (\<lambda>r. r k) rows"
  by (simp add: update_where_id_def)

lemma user_updates_keys:
  "fst ` set (user_updates req isAdmin) \<subseteq> set ALLOWED_USER_UPDATE_FIELDS"
  unfolding user_updates_def admin_user_updates_def Let_def
  by (simp only: if_distrib [of "\<lambda>us. fst ` set us \<subseteq> _"] split: if_split)
    (intro conjI impI add_if_keys; simp add: ALLOWED_USER_UPDATE_FIELDS_def)

lemma updateUser_users:
  "users (snd (updateUser e req d)) = users d
   \<or> (\<exists>rid isAdmin. users (snd (updateUser e req d))
         = update_where_id rid (apply_updates e (user_updates req isAdmin)) (users d))"
  by (auto simp: updateUser_def Let_def createAuditLog_returns split: option.splits)

lemma updateUser_frame:
  assumes "k \<notin> set ALLOWED_USER_UPDATE_FIELDS" and "k \<noteq> ''updated_at''"
  shows "map (\<lambda>r. r k) (users (snd (updateUser e req d))) = map (\<lambda>r. r k) (users d)"
proof -
  have "\<And>isAdmin r. apply_updates e (user_updates req isAdmin) r k = r k"
    using assms user_updates_keys by (intro apply_updates_frame) auto
  then show ?thesis
    using updateUser_users [of e req d] by (auto simp: update_where_id_frame)
qed

lemma put_user_route_users:
  "users (snd (put_user_route e req d)) = users d
   \<or> (\<exists>req1. users (snd (put_user_route e req d)) = users (snd (updateUser e req1 d)))"
  by (auto simp: put_user_route_def split: sum.splits option.splits)

text \<open>
  Claim C10. Whatever the request and the caller, \<open>updateUser\<close> builds its \<open>SET\<close> clause
  from columns of the user allow-list only (plus \<open>updated_at\<close>), so every other column
  of every user row keeps its value; \<open>email\<close> and \<open>password_hash\<close> are such columns. The
  same holds behind the route \<open>PUT /api/users/:id\<close>.
\<close>

theorem updateUser_keeps_email_and_password_hash:
  "fst ` set (user_updates req isAdmin) \<subseteq> set ALLOWED_USER_UPDATE_FIELDS
   \<and> ''email'' \<notin> set ALLOWED_USER_UPDATE_FIELDS
   \<and> ''password_hash'' \<notin> set ALLOWED_USER_UPDATE_FIELDS
   \<and> (\<forall>k. k \<notin> set ALLOWED_USER_UPDATE_FIELDS \<longrightarrow> k \<noteq> ''updated_at'' \<longrightarrow>
         map (\<lambda>r. r k) (users (snd (updateUser e req d))) = map (\<lambda>r. r k) (users d)
         \<and> map (\<lambda>r. r k) (users (snd (put_user_route e req d))) = map (\<lambda>r. r k) (users d))
   \<and> map (\<lambda>r. r ''email'') (users (snd (updateUser e req d))) = map (\<lambda>r. r ''email'') (users d)
   \<and> map (\<lambda>r. r ''password_hash'') (users (snd (updateUser e req d)))
       = map (\<lambda>r. r ''password_hash'') (users d)
   \<and> map (\<lambda>r. r ''email'') (users (snd (put_user_route e req d))) = map (\<lambda>r. r ''email'') (users d)
   \<and> map (\<lambda>r. r ''password_hash'') (users (snd (put_user_route e req d)))
       = map (\<lambda>r. r ''password_hash'') (users d)"
proof -
  have route: "map (\<lambda>r. r k) (users (snd (put_user_route e req d))) = map (\<lambda>r. r k) (users d)"
    if "k \<notin> set ALLOWED_USER_UPDATE_FIELDS" "k \<noteq> ''updated_at''" for k
    using put_user_route_users [of e req d] updateUser_frame [OF that] by auto
  have cols: "''email'' \<notin> set ALLOWED_USER_UPDATE_FIELDS"
    "''password_hash'' \<notin> set ALLOWED_USER_UPDATE_FIELDS"
    by (simp_all add: ALLOWED_USER_UPDATE_FIELDS_def)
  show ?thesis
    using user_updates_keys [of req isAdmin] cols updateUser_frame [of _ e req d] route
    by simp
qed

theorem updateUser_keeps_email_and_password_hash_witness:
  "res_status (fst (updateUser ex_env (user_update_req ex_admin) ex_db)) = 200
   \<and> req_body (user_update_req ex_admin) ''email'' = Some (JStr ''eve@example.org'')
   \<and> cell (users (snd (updateUser ex_env (user_update_req ex_admin) ex_db))) u1 ''first_name''
       = Some (JStr ''Eve'')
   \<and> cell (users (snd (updateUser ex_env (user_update_req ex_admin) ex_db))) u1 ''role''
       = Some (JStr ''moderator'')
   \<and> cell (users (snd (updateUser ex_env (user_update_req ex_admin) ex_db))) u1 ''email''
       = Some (JStr ''u1@example.org'')
   \<and> map (\<lambda>r. r ''email'') (users (snd (updateUser ex_env (user_update_req ex_admin) ex_db)))
       = map (\<lambda>r. r ''email'') (users ex_db)
   \<and> map (\<lambda>r. r ''password_hash'') (users (snd (updateUser ex_env (user_update_req ex_admin) ex_db)))
       = map (\<lambda>r. r ''password_hash'') (users ex_db)"
proof -
  have run:
    "res_status (fst (updateUser ex_env (user_update_req ex_admin) ex_db)) = 200
     \<and> req_body (user_update_req ex_admin) ''email'' = Some (JStr ''eve@example.org'')
     \<and> cell (users (snd (updateUser ex_env (user_update_req ex_admin) ex_db))) u1 ''first_name''
         = Some (JStr ''Eve'')
     \<and> cell (users (snd (updateUser ex_env (user_update_req ex_admin) ex_db))) u1 ''role''
         = Some (JStr ''moderator'')
     \<and> cell (users (snd (updateUser ex_env (user_update_req ex_admin) ex_db))) u1 ''email''
         = Some (JStr ''u1@example.org'')"
    by code_simp
  show ?thesis
    using run updateUser_keeps_email_and_password_hash
      [where req = "user_update_req ex_admin" and e = ex_env and d = ex_db]
    by simp
qed

section \<open>View counts\<close>

lemma field_jobj:
  "field (jobj kvs) k =
     (case find (\<lambda>(k', v). k' = k \<and> v \<noteq> None) kvs of None \<Rightarrow> None | Some (k', v) \<Rightarrow> v)"
  by (induction kvs) (auto simp: jobj_def List.map_filter_simps split: option.splits)

lemma message_json_viewCount: "field (message_json m vc) ''viewCount'' = vc"
  by (cases vc) (simp_all add: field_jobj message_json_def)

lemma message_json_slug: "field (message_json m vc) ''slug'' = m ''slug''"
  by (cases "m ''slug''") (simp_all add: field_jobj message_json_def)

lemma find_map_same:
  "(\<And>x. P (f x) = P x) \<Longrightarrow> find P (map f xs) = map_option f (find P xs)"
  by (induction xs) simp_all

lemma strict_eq_string [simp]: "strict_eq v (Some (JStr s)) = (v = Some (JStr s))"
  by (auto simp: strict_eq_def split: option.splits)

lemma getMessageBySlug_found_active:
  assumes "req_params req ''slug'' = Some slug"
    and "select_message d slug = Some m"
    and "m ''status'' = Some (JStr ''active'')"
    and "res_status (fst (getMessageBySlug e req d)) = 200"
  shows "getMessageBySlug e req d =
     (message_reply 200 None (message_json m (js_plus_one (m ''view_count''))),
      d\<lparr>messages := update_where_id (m ''id'')
            (\<lambda>r. set_column ''view_count'' (sql_plus_one (r ''view_count'')) r) (messages d)\<rparr>)"
  using assms
  by (auto simp: getMessageBySlug_def reply_def server_error_def split: if_splits)

lemma getMessageBySlug_unchanged:
  assumes "\<And>slug m. req_params req ''slug'' = Some slug \<Longrightarrow> select_message d slug = Some m \<Longrightarrow>
             m ''status'' \<noteq> Some (JStr ''active'')"
  shows "snd (getMessageBySlug e req d) = d"
  using assms
  by (auto simp: getMessageBySlug_def split: option.splits)

lemma sql_eq_id: "mid \<noteq> JNull \<Longrightarrow> sql_eq v (Some mid) = (v = Some mid)"
  by (auto simp: sql_eq_def)

lemma view_count_active:
  assumes slug: "req_params req ''slug'' = Some slug"
    and found: "select_message d slug = Some m"
    and active: "m ''status'' = Some (JStr ''active'')"
    and count: "m ''view_count'' = Some (JNum n)"
    and mid: "m ''id'' = Some mid" "mid \<noteq> JNull"
    and ok: "res_status (fst (getMessageBySlug e req d)) = 200"
  shows "select_message (snd (getMessageBySlug e req d)) slug
          = Some (m(''view_count'' \<mapsto> JNum (n + 1)))"
    and "reported_views (fst (getMessageBySlug e req d)) = Some (JNum (n + 1))"
    and "snd (getMessageBySlug e req d)
          = d\<lparr>messages := map (\<lambda>r. if r ''id'' = Some mid
                                     then r(''view_count'' := sql_plus_one (r ''view_count''))
                                     else r) (messages d)\<rparr>"
proof -
  let ?f = "\<lambda>r. if r ''id'' = Some mid
                 then r(''view_count'' := sql_plus_one (r ''view_count'')) else r"
  let ?P = "\<lambda>m. if isUUID slug then sql_eq (m ''id'') (Some (JStr slug))
                 else sql_eq (m ''slug'') (Some (JStr slug))"
  have run: "getMessageBySlug e req d =
     (message_reply 200 None (message_json m (js_plus_one (m ''view_count''))),
      d\<lparr>messages := update_where_id (m ''id'')
            (\<lambda>r. set_column ''view_count'' (sql_plus_one (r ''view_count'')) r) (messages d)\<rparr>)"
    by (rule getMessageBySlug_found_active [OF slug found active ok])
  have upd: "update_where_id (m ''id'')
       (\<lambda>r. set_column ''view_count'' (sql_plus_one (r ''view_count'')) r) (messages d)
     = map ?f (messages d)"
    by (simp add: update_where_id_def set_column_def mid sql_eq_id)
  show third: "snd (getMessageBySlug e req d) = d\<lparr>messages := map ?f (messages d)\<rparr>"
    by (simp add: run upd)
  show "reported_views (fst (getMessageBySlug e req d)) = Some (JNum (n + 1))"
    by (simp add: run reported_views_def message_reply_def message_json_viewCount count)
  have same: "?P (?f r) = ?P r" for r
    by simp
  have "find ?P (map ?f (messages d)) = map_option ?f (find ?P (messages d))"
    by (rule find_map_same) (rule same)
  also have "find ?P (messages d) = Some m"
    using found by (simp add: select_message_def)
  finally have "find ?P (map ?f (messages d)) = Some (?f m)"
    by simp
  moreover have "?f m = m(''view_count'' \<mapsto> JNum (n + 1))"
    by (simp add: mid count)
  ultimately show "select_message (snd (getMessageBySlug e req d)) slug
      = Some (m(''view_count'' \<mapsto> JNum (n + 1)))"
    by (simp add: third select_message_def)
qed

text \<open>
  On a row whose \<open>view_count\<close> is a number: a successful fetch (status 200) of a message
  whose status is \<open>active\<close> (a row with an id, as its primary key gives it) adds exactly
  1 to the stored \<open>view_count\<close> of that message and changes nothing else in the database;
  the \<open>viewCount\<close> of the response is the fetched count plus 1, which is the new stored
  value. When the fetched message is not \<open>active\<close>, or none is found, the database is
  left as it was (the response to the author or to staff still reports the fetched count
  plus 1).
\<close>

lemma view_count_numeric:
  "(req_params req ''slug'' = Some slug \<and> select_message d slug = Some m
      \<and> m ''status'' = Some (JStr ''active'') \<and> m ''view_count'' = Some (JNum n)
      \<and> m ''id'' = Some mid \<and> mid \<noteq> JNull
      \<and> res_status (fst (getMessageBySlug e req d)) = 200 \<longrightarrow>
        select_message (snd (getMessageBySlug e req d)) slug
          = Some (m(''view_count'' \<mapsto> JNum (n + 1)))
        \<and> reported_views (fst (getMessageBySlug e req d)) = Some (JNum (n + 1))
        \<and> snd (getMessageBySlug e req d)
            = d\<lparr>messages := map (\<lambda>r. if r ''id'' = Some mid
                                       then r(''view_count'' := sql_plus_one (r ''view_count''))
                                       else r) (messages d)\<rparr>)
   \<and> ((\<forall>slug m. req_params req ''slug'' = Some slug \<longrightarrow> select_message d slug = Some m \<longrightarrow>
          m ''status'' \<noteq> Some (JStr ''active'')) \<longrightarrow>
        snd (getMessageBySlug e req d) = d)"
proof (intro conjI impI; (elim conjE)?)
  assume "\<forall>slug m. req_params req ''slug'' = Some slug \<longrightarrow> select_message d slug = Some m \<longrightarrow>
            m ''status'' \<noteq> Some (JStr ''active'')"
  then show "snd (getMessageBySlug e req d) = d"
    by (intro getMessageBySlug_unchanged) blast
next
  assume a: "req_params req ''slug'' = Some slug" "select_message d slug = Some m"
    "m ''status'' = Some (JStr ''active'')" "m ''view_count'' = Some (JNum n)"
    "m ''id'' = Some mid" "mid \<noteq> JNull" "res_status (fst (getMessageBySlug e req d)) = 200"
  show "select_message (snd (getMessageBySlug e req d)) slug
      = Some (m(''view_count'' \<mapsto> JNum (n + 1)))"
    by (rule view_count_active(1) [OF a])
next
  assume a: "req_params req ''slug'' = Some slug" "select_message d slug = Some m"
    "m ''status'' = Some (JStr ''active'')" "m ''view_count'' = Some (JNum n)"
    "m ''id'' = Some mid" "mid \<noteq> JNull" "res_status (fst (getMessageBySlug e req d)) = 200"
  show "reported_views (fst (getMessageBySlug e req d)) = Some (JNum (n + 1))"
    by (rule view_count_active(2) [OF a])
next
  assume a: "req_params req ''slug'' = Some slug" "select_message d slug = Some m"
    "m ''status'' = Some (JStr ''active'')" "m ''view_count'' = Some (JNum n)"
    "m ''id'' = Some mid" "mid \<noteq> JNull" "res_status (fst (getMessageBySlug e req d)) = 200"
  show "snd (getMessageBySlug e req d)
      = d\<lparr>messages := map (\<lambda>r. if r ''id'' = Some mid
                                 then r(''view_count'' := sql_plus_one (r ''view_count''))
                                 else r) (messages d)\<rparr>"
    by (rule view_count_active(3) [OF a])
qed

lemma view_count_numeric_example:
  "res_status (fst (getMessageBySlug ex_env (view_req ''hello-world'' None) ex_db_messages)) = 200
   \<and> cell (messages ex_db_messages) m1 ''view_count'' = Some (JNum 5)
   \<and> reported_views (fst (getMessageBySlug ex_env (view_req ''hello-world'' None) ex_db_messages))
       = Some (JNum 6)
   \<and> cell (messages (snd (getMessageBySlug ex_env (view_req ''hello-world'' None) ex_db_messages)))
         m1 ''view_count'' = Some (JNum 6)
   \<and> cell (messages (snd (getMessageBySlug ex_env (view_req ''hello-world'' None) ex_db_messages)))
         m2 ''view_count'' = Some (JNum 7)
   \<and> res_status (fst (getMessageBySlug ex_env (view_req ''hidden-note'' None) ex_db_messages)) = 404
   \<and> res_status (fst (getMessageBySlug ex_env (view_req ''hidden-note'' (Some ex_user))
         ex_db_messages)) = 200
   \<and> reported_views (fst (getMessageBySlug ex_env (view_req ''hidden-note'' (Some ex_user))
         ex_db_messages)) = Some (JNum 8)
   \<and> snd (getMessageBySlug ex_env (view_req ''hidden-note'' (Some ex_user)) ex_db_messages)
       = ex_db_messages"
proof -
  have run:
    "res_status (fst (getMessageBySlug ex_env (view_req ''hello-world'' None) ex_db_messages)) = 200
     \<and> cell (messages ex_db_messages) m1 ''view_count'' = Some (JNum 5)
     \<and> cell (messages (snd (getMessageBySlug ex_env (view_req ''hello-world'' None) ex_db_messages)))
           m1 ''view_count'' = Some (JNum 6)
     \<and> cell (messages (snd (getMessageBySlug ex_env (view_req ''hello-world'' None) ex_db_messages)))
           m2 ''view_count'' = Some (JNum 7)
     \<and> res_status (fst (getMessageBySlug ex_env (view_req ''hidden-note'' None) ex_db_messages)) = 404
     \<and> res_status (fst (getMessageBySlug ex_env (view_req ''hidden-note'' (Some ex_user))
           ex_db_messages)) = 200
     \<and> reported_views (fst (getMessageBySlug ex_env (view_req ''hidden-note'' (Some ex_user))
           ex_db_messages)) = Some (JNum 8)"
    by code_simp
  have fetched:
    "req_params (view_req ''hello-world'' None) ''slug'' = Some ''hello-world''"
    "select_message ex_db_messages ''hello-world'' = Some ex_message"
    "ex_message ''status'' = Some (JStr ''active'')" "ex_message ''view_count'' = Some (JNum 5)"
    "ex_message ''id'' = Some (JStr m1)"
    by (simp_all add: view_req_def ex_req_def select_message_def ex_db_messages_def ex_message_def
        sql_eq_def isUUID_def)
  have hidden: "\<forall>slug m. req_params (view_req ''hidden-note'' (Some ex_user)) ''slug'' = Some slug
      \<longrightarrow> select_message ex_db_messages slug = Some m \<longrightarrow> m ''status'' \<noteq> Some (JStr ''active'')"
    by (simp add: view_req_def ex_req_def select_message_def ex_db_messages_def ex_message_def
        ex_hidden_def sql_eq_def isUUID_def)
  from run fetched
    view_count_numeric [where req = "view_req ''hello-world'' None" and slug = "''hello-world''"
      and d = ex_db_messages and m = ex_message and n = 5 and mid = "JStr m1" and e = ex_env]
  have "reported_views (fst (getMessageBySlug ex_env (view_req ''hello-world'' None) ex_db_messages))
      = Some (JNum 6)"
    by simp
  moreover from hidden
    view_count_numeric [where req = "view_req ''hidden-note'' (Some ex_user)"
      and d = ex_db_messages and e = ex_env]
  have "snd (getMessageBySlug ex_env (view_req ''hidden-note'' (Some ex_user)) ex_db_messages)
      = ex_db_messages"
    by blast
  ultimately show ?thesis
    using run by simp
qed


section \<open>Slugs\<close>

lemma collapse_set: "set (collapse p xs) \<subseteq> {c \<in> set xs. \<not> p c} \<union> {CHR ''-''}"
  by (induction p xs rule: collapse.induct) auto

lemma collapse_cong: "(\<And>c. c \<in> set xs \<Longrightarrow> p c = q c) \<Longrightarrow> collapse p xs = collapse q xs"
  by (induction p xs rule: collapse.induct) auto

lemma collapse_keeps_head: "\<not> p d \<Longrightarrow> \<exists>rest. collapse p (d # cs) = d # rest"
  by (cases cs) auto

lemma collapse_no_double: "no_double_hyphen (collapse (\<lambda>c. c = CHR ''-'') xs)"
proof (induction "\<lambda>c. c = CHR ''-''" xs rule: collapse.induct)
  case 1
  show ?case by simp
next
  case (2 c)
  show ?case by simp
next
  case (3 c d cs)
  show ?case
  proof (cases "d = CHR ''-''")
    case True
    with 3 show ?thesis
      by (cases "collapse (\<lambda>c. c = CHR ''-'') (d # cs)") (auto split: if_splits)
  next
    case False
    then obtain rest where "collapse (\<lambda>c. c = CHR ''-'') (d # cs) = d # rest"
      using collapse_keeps_head [of "\<lambda>c. c = CHR ''-''" d cs] by auto
    with 3 False show ?thesis
      by auto
  qed
qed

lemma space_is_space: "is_space CHR '' ''"
  by (simp add: is_space_def)

lemma slug_char_space: "slug_char c \<Longrightarrow> is_space c = (c = CHR '' '')"
  by (auto simp: slug_char_def is_space_def is_lower_def is_digit_def in_range_def)

lemma hyphen_not_space: "\<not> is_space CHR ''-''"
  by (simp add: is_space_def)

lemma trim_no_space: "(\<And>c. c \<in> set s \<Longrightarrow> \<not> is_space c) \<Longrightarrow> v_trim s = s"
proof -
  assume a: "\<And>c. c \<in> set s \<Longrightarrow> \<not> is_space c"
  have "dropWhile is_space s = s"
    using a by (cases s) auto
  moreover have "dropWhile is_space (rev s) = rev s"
    using a by (cases "rev s") (auto simp: rev_eq_Cons_iff)
  ultimately show ?thesis
    by (simp add: v_trim_def)
qed

lemma spec_slug_chars:
  "c \<in> set (spec_slug title) \<Longrightarrow> is_lower c \<or> is_digit c \<or> c = CHR ''-''"
proof -
  assume "c \<in> set (spec_slug title)"
  then have "c = CHR ''-'' \<or> c \<in> set (collapse (\<lambda>c. c = CHR '' '') (filter slug_char (map to_lower title)))"
    unfolding spec_slug_def using collapse_set by fastforce
  then have "c = CHR ''-'' \<or> (c \<in> set (filter slug_char (map to_lower title)) \<and> c \<noteq> CHR '' '')"
    using collapse_set by fastforce
  then show ?thesis
    by (auto simp: slug_char_def)
qed

lemma generateSlug_spec: "generateSlug title = spec_slug title"
proof -
  have same: "collapse is_space (filter slug_char (map to_lower title))
      = collapse (\<lambda>c. c = CHR '' '') (filter slug_char (map to_lower title))"
    by (rule collapse_cong) (simp add: slug_char_space)
  have "\<not> is_space c" if "c \<in> set (spec_slug title)" for c
    using spec_slug_chars [OF that]
    by (auto simp: is_space_def is_lower_def is_digit_def in_range_def)
  then have "v_trim (spec_slug title) = spec_slug title"
    by (rule trim_no_space)
  then show ?thesis
    by (simp add: generateSlug_def spec_slug_def same)
qed

lemma unique_slug_free: "\<not> slug_taken rows (unique_slug rows slug finalSlug counter)"
  by (induction rows slug finalSlug counter rule: unique_slug.induct)
    (simp add: unique_slug.simps)

lemma unique_slug_first: "\<not> slug_taken rows slug \<Longrightarrow> unique_slug rows slug slug 1 = slug"
  by (simp add: unique_slug.simps)

lemma unique_slug_second:
  "slug_taken rows slug \<Longrightarrow> \<not> slug_taken rows (suffixed slug 1) \<Longrightarrow>
     unique_slug rows slug slug 1 = suffixed slug 1"
  by (simp add: unique_slug.simps)

lemma unique_slug_third:
  "slug_taken rows slug \<Longrightarrow> slug_taken rows (suffixed slug 1) \<Longrightarrow>
   \<not> slug_taken rows (suffixed slug 2) \<Longrightarrow>
     unique_slug rows slug slug 1 = suffixed slug 2"
  by (simp add: unique_slug.simps numeral_2_eq_2)

lemma show_nat_1_2: "show_nat (Suc 0) = ''1''" "show_nat 2 = ''2''"
  by code_simp+

lemma suffixed_1: "suffixed slug 1 = slug @ ''-1''" "suffixed slug (Suc 0) = slug @ ''-1''"
  by (simp_all add: suffixed_def show_nat_1_2)

lemma suffixed_2: "suffixed slug 2 = slug @ ''-2''"
  by (simp add: suffixed_def show_nat_1_2)

lemma slug_taken_append:
  "slug_taken (rows @ [r]) s = (slug_taken rows s \<or> r ''slug'' = Some (JStr s))"
  by (auto simp: slug_taken_def)

lemma new_message_row_slug: "new_message_row e req finalSlug st ''slug'' = Some (JStr finalSlug)"
  by (simp add: new_message_row_def obj_def)

lemma insert_tags_ok:
  "\<not> fails e InsMessageTag \<Longrightarrow> \<exists>d'. insert_tags e mid ts d = Inr d' \<and> messages d' = messages d"
proof (induction ts arbitrary: d)
  case Nil
  show ?case by simp
next
  case (Cons t ts)
  from Cons.IH [OF Cons.prems, of d]
    Cons.IH [OF Cons.prems, of "d\<lparr>message_tags := message_tags d @ [(mid, t)]\<rparr>"]
  show ?case
    using Cons.prems by auto
qed

lemma add_tags_ok:
  "\<not> fails e InsMessageTag \<Longrightarrow> \<exists>d'. add_tags e mid tags d = Inr d' \<and> messages d' = messages d"
  using insert_tags_ok [of e mid _ d]
  by (auto simp: add_tags_def split: option.splits jsval.splits)

text \<open>A create that no statement fails: one row is appended, with the slug the loop found.\<close>

lemma createMessage_ok:
  assumes title: "req_body req ''title'' = Some (JStr title)"
    and user: "req_user req \<noteq> None"
    and ok: "\<And>s. \<not> fails e s"
  shows "res_status (fst (createMessage e req d)) = 201
       \<and> reported_slug (fst (createMessage e req d))
           = Some (JStr (unique_slug (messages d) (generateSlug title) (generateSlug title) 1))
       \<and> map (\<lambda>r. r ''slug'') (messages (snd (createMessage e req d)))
           = map (\<lambda>r. r ''slug'') (messages d)
             @ [Some (JStr (unique_slug (messages d) (generateSlug title) (generateSlug title) 1))]"
proof -
  from user obtain u where u: "req_user req = Some u" by auto
  let ?st = "if strict_eq (u ''role'') (Some (JStr ''user'')) then JStr ''active''
             else or_else (req_body req ''status'') (JStr ''active'')"
  let ?row = "new_message_row e req
      (unique_slug (messages d) (generateSlug title) (generateSlug title) 1) ?st"
  let ?d1 = "d\<lparr>messages := messages d @ [?row]\<rparr>"
  obtain d2 where d2: "add_tags e (?row ''id'') (req_body req ''tags'') ?d1 = Inr d2"
      and m2: "messages d2 = messages ?d1"
    using add_tags_ok [OF ok, of "?row ''id''" "req_body req ''tags''" ?d1] by blast
  have "createMessage e req d =
      (message_reply 201 (Some ''Message created successfully'') (created_json ?row),
       d2\<lparr>audit_logs := audit_logs d2 @
            [\<lparr> au_user_id = u ''id'', au_action = ''create'', au_resource_type = ''message'',
               au_resource_id = ?row ''id'', au_old_values = None, au_new_values = Some ?row \<rparr>]\<rparr>)"
    using d2 by (simp add: createMessage_def generateSlug_of_def title u ok createAuditLog_returns
        Let_def del: strict_eq_string)
  then show ?thesis
    by (simp add: m2 message_reply_def reported_slug_def created_json_def message_json_slug
        new_message_row_slug)
qed

lemma slug_taken_iff: "slug_taken rows x = (Some (JStr x) \<in> set (map (\<lambda>r. r ''slug'') rows))"
  by (induction rows) (auto simp: slug_taken_def)

lemma unique_slug_form:
  "unique_slug rows slug finalSlug counter = finalSlug
   \<or> (\<exists>k \<ge> counter. unique_slug rows slug finalSlug counter = suffixed slug k)"
proof (induction rows slug finalSlug counter rule: unique_slug.induct)
  case (1 rows slug finalSlug counter)
  show ?case
  proof (cases "slug_taken rows finalSlug")
    case True
    with 1 have "unique_slug rows slug (suffixed slug counter) (Suc counter) = suffixed slug counter
      \<or> (\<exists>k \<ge> Suc counter. unique_slug rows slug (suffixed slug counter) (Suc counter)
            = suffixed slug k)"
      by simp
    then have "\<exists>k \<ge> counter. unique_slug rows slug (suffixed slug counter) (Suc counter)
        = suffixed slug k"
      using Suc_leD by blast
    with True show ?thesis
      by (simp add: unique_slug.simps [of rows slug finalSlug])
  next
    case False
    then show ?thesis
      by (simp add: unique_slug.simps [of rows slug finalSlug])
  qed
qed

lemma three_creates:
  assumes t: "req_body r1 ''title'' = Some (JStr t1)" "req_body r2 ''title'' = Some (JStr t2)"
      "req_body r3 ''title'' = Some (JStr t3)"
    and s: "generateSlug t1 = s" "generateSlug t2 = s" "generateSlug t3 = s"
    and u: "req_user r1 \<noteq> None" "req_user r2 \<noteq> None" "req_user r3 \<noteq> None"
    and ok: "\<And>st. \<not> fails e1 st" "\<And>st. \<not> fails e2 st" "\<And>st. \<not> fails e3 st"
    and free: "\<not> slug_taken (messages d0) s" "\<not> slug_taken (messages d0) (s @ ''-1'')"
      "\<not> slug_taken (messages d0) (s @ ''-2'')"
    and d1_def: "d1 = snd (createMessage e1 r1 d0)"
    and d2_def: "d2 = snd (createMessage e2 r2 d1)"
    and d3_def: "d3 = snd (createMessage e3 r3 d2)"
  shows "reported_slug (fst (createMessage e1 r1 d0)) = Some (JStr s)"
    and "reported_slug (fst (createMessage e2 r2 d1)) = Some (JStr (s @ ''-1''))"
    and "reported_slug (fst (createMessage e3 r3 d2)) = Some (JStr (s @ ''-2''))"
    and "map (\<lambda>r. r ''slug'') (messages d3)
          = map (\<lambda>r. r ''slug'') (messages d0)
            @ [Some (JStr s), Some (JStr (s @ ''-1'')), Some (JStr (s @ ''-2''))]"
    and "res_status (fst (createMessage e1 r1 d0)) = 201"
    and "res_status (fst (createMessage e2 r2 d1)) = 201"
    and "res_status (fst (createMessage e3 r3 d2)) = 201"
proof -
  let ?slugs = "\<lambda>d. map (\<lambda>r. r ''slug'') (messages d)"
  have first: "unique_slug (messages d0) s s 1 = s"
    using free(1) by (rule unique_slug_first)
  note c1 = createMessage_ok [OF t(1) u(1) ok(1), of d0, unfolded s first]
  from c1 have l1: "?slugs d1 = ?slugs d0 @ [Some (JStr s)]"
    by (simp add: d1_def)
  have "slug_taken (messages d1) s"
    using l1 by (simp add: slug_taken_iff)
  moreover have "\<not> slug_taken (messages d1) (suffixed s 1)"
    using l1 free(2) by (simp add: slug_taken_iff suffixed_1)
  ultimately have second: "unique_slug (messages d1) s s 1 = s @ ''-1''"
    using unique_slug_second [of "messages d1" s] by (simp add: suffixed_1)
  note c2 = createMessage_ok [OF t(2) u(2) ok(2), of d1, unfolded s second]
  from c2 l1 have l2: "?slugs d2 = ?slugs d0 @ [Some (JStr s), Some (JStr (s @ ''-1''))]"
    by (simp add: d2_def)
  have "slug_taken (messages d2) s"
    using l2 by (simp add: slug_taken_iff)
  moreover have "slug_taken (messages d2) (suffixed s 1)"
    using l2 by (simp add: slug_taken_iff suffixed_1)
  moreover have "\<not> slug_taken (messages d2) (suffixed s 2)"
    using l2 free(3) by (simp add: slug_taken_iff suffixed_2)
  ultimately have third: "unique_slug (messages d2) s s 1 = s @ ''-2''"
    using unique_slug_third [of "messages d2" s] by (simp add: suffixed_2)
  note c3 = createMessage_ok [OF t(3) u(3) ok(3), of d2, unfolded s third]
  from c3 l2 show "?slugs d3 = ?slugs d0 @ [Some (JStr s), Some (JStr (s @ ''-1'')), Some (JStr (s @ ''-2''))]"
    by (simp add: d3_def)
  from c1 show "reported_slug (fst (createMessage e1 r1 d0)) = Some (JStr s)"
    and "res_status (fst (createMessage e1 r1 d0)) = 201" by simp_all
  from c2 show "reported_slug (fst (createMessage e2 r2 d1)) = Some (JStr (s @ ''-1''))"
    and "res_status (fst (createMessage e2 r2 d1)) = 201" by simp_all
  from c3 show "reported_slug (fst (createMessage e3 r3 d2)) = Some (JStr (s @ ''-2''))"
    and "res_status (fst (createMessage e3 r3 d2)) = 201" by simp_all
qed

text \<open>
  Claim C5. The candidate slug is the title in lowercase, without the characters
  outside \<open>[a-z0-9 -]\<close>, with every run of white space turned into a hyphen and every
  run of hyphens collapsed (the final \<open>trim\<close> finds nothing to strip): it consists of
  \<open>[a-z0-9-]\<close> and has no two hyphens in a row. The uniqueness loop is a total
  function: on every table it returns the candidate, or the candidate with a counter
  suffix, and the table has no row with the slug returned. When three creates in a row
  have titles with the same candidate, in a table that holds neither the candidate nor
  its suffixes \<open>-1\<close> and \<open>-2\<close>, and no statement fails, the three rows are stored with the
  candidate, the candidate suffixed \<open>-1\<close> and the candidate suffixed \<open>-2\<close>.
\<close>

theorem slug_candidate_and_suffixes:
  "generateSlug title = spec_slug title
   \<and> (\<forall>c \<in> set (generateSlug title). is_lower c \<or> is_digit c \<or> c = CHR ''-'')
   \<and> no_double_hyphen (generateSlug title)
   \<and> \<not> slug_taken rows (unique_slug rows slug slug 1)
   \<and> (unique_slug rows slug slug 1 = slug
        \<or> (\<exists>k \<ge> 1. unique_slug rows slug slug 1 = slug @ ''-'' @ show_nat k))
   \<and> (req_body r1 ''title'' = Some (JStr t1) \<and> req_body r2 ''title'' = Some (JStr t2)
        \<and> req_body r3 ''title'' = Some (JStr t3)
        \<and> generateSlug t1 = s \<and> generateSlug t2 = s \<and> generateSlug t3 = s
        \<and> req_user r1 \<noteq> None \<and> req_user r2 \<noteq> None \<and> req_user r3 \<noteq> None
        \<and> (\<forall>st. \<not> fails e1 st \<and> \<not> fails e2 st \<and> \<not> fails e3 st)
        \<and> \<not> slug_taken (messages d0) s \<and> \<not> slug_taken (messages d0) (s @ ''-1'')
        \<and> \<not> slug_taken (messages d0) (s @ ''-2'') \<longrightarrow>
       (let d1 = snd (createMessage e1 r1 d0);
            d2 = snd (createMessage e2 r2 d1);
            d3 = snd (createMessage e3 r3 d2)
        in res_status (fst (createMessage e1 r1 d0)) = 201
           \<and> res_status (fst (createMessage e2 r2 d1)) = 201
           \<and> res_status (fst (createMessage e3 r3 d2)) = 201
           \<and> reported_slug (fst (createMessage e1 r1 d0)) = Some (JStr s)
           \<and> reported_slug (fst (createMessage e2 r2 d1)) = Some (JStr (s @ ''-1''))
           \<and> reported_slug (fst (createMessage e3 r3 d2)) = Some (JStr (s @ ''-2''))
           \<and> map (\<lambda>r. r ''slug'') (messages d3)
               = map (\<lambda>r. r ''slug'') (messages d0)
                 @ [Some (JStr s), Some (JStr (s @ ''-1'')), Some (JStr (s @ ''-2''))]))"
proof (intro conjI)
  show "generateSlug title = spec_slug title"
    by (rule generateSlug_spec)
  show "\<forall>c \<in> set (generateSlug title). is_lower c \<or> is_digit c \<or> c = CHR ''-''"
    using spec_slug_chars [of _ title] by (simp add: generateSlug_spec)
  show "no_double_hyphen (generateSlug title)"
    by (simp add: generateSlug_spec spec_slug_def collapse_no_double)
  show "\<not> slug_taken rows (unique_slug rows slug slug 1)"
    by (rule unique_slug_free)
  show "unique_slug rows slug slug 1 = slug
      \<or> (\<exists>k \<ge> 1. unique_slug rows slug slug 1 = slug @ ''-'' @ show_nat k)"
    using unique_slug_form [of rows slug slug 1] by (simp add: suffixed_def)
  show "req_body r1 ''title'' = Some (JStr t1) \<and> req_body r2 ''title'' = Some (JStr t2)
        \<and> req_body r3 ''title'' = Some (JStr t3)
        \<and> generateSlug t1 = s \<and> generateSlug t2 = s \<and> generateSlug t3 = s
        \<and> req_user r1 \<noteq> None \<and> req_user r2 \<noteq> None \<and> req_user r3 \<noteq> None
        \<and> (\<forall>st. \<not> fails e1 st \<and> \<not> fails e2 st \<and> \<not> fails e3 st)
        \<and> \<not> slug_taken (messages d0) s \<and> \<not> slug_taken (messages d0) (s @ ''-1'')
        \<and> \<not> slug_taken (messages d0) (s @ ''-2'') \<longrightarrow>
       (let d1 = snd (createMessage e1 r1 d0);
            d2 = snd (createMessage e2 r2 d1);
            d3 = snd (createMessage e3 r3 d2)
        in res_status (fst (createMessage e1 r1 d0)) = 201
           \<and> res_status (fst (createMessage e2 r2 d1)) = 201
           \<and> res_status (fst (createMessage e3 r3 d2)) = 201
           \<and> reported_slug (fst (createMessage e1 r1 d0)) = Some (JStr s)
           \<and> reported_slug (fst (createMessage e2 r2 d1)) = Some (JStr (s @ ''-1''))
           \<and> reported_slug (fst (createMessage e3 r3 d2)) = Some (JStr (s @ ''-2''))
           \<and> map (\<lambda>r. r ''slug'') (messages d3)
               = map (\<lambda>r. r ''slug'') (messages d0)
                 @ [Some (JStr s), Some (JStr (s @ ''-1'')), Some (JStr (s @ ''-2''))])"
  proof (intro impI, elim conjE)
    assume a: "req_body r1 ''title'' = Some (JStr t1)" "req_body r2 ''title'' = Some (JStr t2)"
      "req_body r3 ''title'' = Some (JStr t3)"
      "generateSlug t1 = s" "generateSlug t2 = s" "generateSlug t3 = s"
      "req_user r1 \<noteq> None" "req_user r2 \<noteq> None" "req_user r3 \<noteq> None"
      "\<forall>st. \<not> fails e1 st \<and> \<not> fails e2 st \<and> \<not> fails e3 st"
      "\<not> slug_taken (messages d0) s" "\<not> slug_taken (messages d0) (s @ ''-1'')"
      "\<not> slug_taken (messages d0) (s @ ''-2'')"
    from a(10) have ok: "\<And>st. \<not> fails e1 st" "\<And>st. \<not> fails e2 st" "\<And>st. \<not> fails e3 st"
      by simp_all
    note three = three_creates [OF a(1-9) ok a(11-13) refl refl refl]
    show "let d1 = snd (createMessage e1 r1 d0);
            d2 = snd (createMessage e2 r2 d1);
            d3 = snd (createMessage e3 r3 d2)
        in res_status (fst (createMessage e1 r1 d0)) = 201
           \<and> res_status (fst (createMessage e2 r2 d1)) = 201
           \<and> res_status (fst (createMessage e3 r3 d2)) = 201
           \<and> reported_slug (fst (createMessage e1 r1 d0)) = Some (JStr s)
           \<and> reported_slug (fst (createMessage e2 r2 d1)) = Some (JStr (s @ ''-1''))
           \<and> reported_slug (fst (createMessage e3 r3 d2)) = Some (JStr (s @ ''-2''))
           \<and> map (\<lambda>r. r ''slug'') (messages d3)
               = map (\<lambda>r. r ''slug'') (messages d0)
                 @ [Some (JStr s), Some (JStr (s @ ''-1'')), Some (JStr (s @ ''-2''))]"
      unfolding Let_def using three by simp
  qed
qed

theorem slug_candidate_and_suffixes_witness:
  "generateSlug ''Hello World'' = ''hello-world''
   \<and> generateSlug ''hello   world'' = ''hello-world''
   \<and> generateSlug ''Hello, World!'' = ''hello-world''
   \<and> generateSlug '' Hello --- World '' = ''-hello-world-''
   \<and> map (\<lambda>r. r ''slug'')
        (messages (snd (createMessage ex_env (create_req ''Hello, World!'')
           (snd (createMessage ex_env (create_req ''hello   world'')
              (snd (createMessage ex_env (create_req ''Hello World'') ex_db)))))))
       = [Some (JStr ''hello-world''), Some (JStr ''hello-world-1''),
          Some (JStr ''hello-world-2'')]"
proof -
  have slugs:
    "generateSlug ''Hello World'' = ''hello-world''"
    "generateSlug ''hello   world'' = ''hello-world''"
    "generateSlug ''Hello, World!'' = ''hello-world''"
    "generateSlug '' Hello --- World '' = ''-hello-world-''"
    by code_simp+
  have reqs:
    "req_body (create_req ''Hello World'') ''title'' = Some (JStr ''Hello World'')"
    "req_body (create_req ''hello   world'') ''title'' = Some (JStr ''hello   world'')"
    "req_body (create_req ''Hello, World!'') ''title'' = Some (JStr ''Hello, World!'')"
    "req_user (create_req ''Hello World'') \<noteq> None"
    "req_user (create_req ''hello   world'') \<noteq> None"
    "req_user (create_req ''Hello, World!'') \<noteq> None"
    by (simp_all add: create_req_def ex_req_def)
  have ok: "\<forall>st. \<not> fails ex_env st \<and> \<not> fails ex_env st \<and> \<not> fails ex_env st"
    by (simp add: ex_env_def)
  have free: "\<not> slug_taken (messages ex_db) ''hello-world''"
    "\<not> slug_taken (messages ex_db) (''hello-world'' @ ''-1'')"
    "\<not> slug_taken (messages ex_db) (''hello-world'' @ ''-2'')"
    by (simp_all add: ex_db_def slug_taken_def)
  have empty: "messages ex_db = []"
    by (simp add: ex_db_def)
  from slug_candidate_and_suffixes [where ?r1.0 = "create_req ''Hello World''"
      and ?t1.0 = "''Hello World''" and ?r2.0 = "create_req ''hello   world''"
      and ?t2.0 = "''hello   world''" and ?r3.0 = "create_req ''Hello, World!''"
      and ?t3.0 = "''Hello, World!''" and s = "''hello-world''"
      and ?e1.0 = ex_env and ?e2.0 = ex_env and ?e3.0 = ex_env and ?d0.0 = ex_db]
    slugs(1-3) reqs ok free
  have "map (\<lambda>r. r ''slug'')
        (messages (snd (createMessage ex_env (create_req ''Hello, World!'')
           (snd (createMessage ex_env (create_req ''hello   world'')
              (snd (createMessage ex_env (create_req ''Hello World'') ex_db)))))))
       = map (\<lambda>r. r ''slug'') (messages ex_db)
         @ [Some (JStr ''hello-world''), Some (JStr (''hello-world'' @ ''-1'')),
            Some (JStr (''hello-world'' @ ''-2''))]"
    unfolding Let_def by blast
  with slugs empty show ?thesis
    by simp
qed


end
